theory Spec2Isabelle
  imports Complex_Main "HOL-Library.Product_Lexorder" "HOL-Library.List_Lexorder"
    "HOL-Library.Char_ord"
begin

section \<open>JavaScript values as the server handles them\<close>

text \<open>
  The backend (\<^verbatim>\<open>src/unnamed/part_001\<close>) is an Express server that wraps a payment
  provider SDK and a document store SDK. Request bodies, webhook payloads, provider
  objects and stored documents are dynamically typed; they are modelled by one datatype
  of values. A number is written as a rational, which stands for the double nearest to
  it. The provider's amounts are integers of minor units, and the engine rounds the
  quotient \<^verbatim>\<open>amount / 100\<close> of such an amount correctly, so that it is the number
  written as the rational quotient; the product and the rounding of
  \<^verbatim>\<open>Math.round(amount * 100)\<close>, whose argument is a fraction read from the request,
  depend on the double arithmetic and are left to the engine. An object is an
  association list of its own properties, with distinct keys.
  \<open>AutoId\<close> stands for a document id generated by the store and \<open>Timestamp\<close> for a
  time stored by it.
\<close>

datatype jsval =
    JUndefined
  | JNull
  | JBool bool
  | JNum rat
  | JNaN
  | JStr string
  | JArr "jsval list"
  | JObj "(string \<times> jsval) list"
  | AutoId nat
  | Timestamp nat

datatype js_error = TypeError string | Error string

fun message :: "js_error \<Rightarrow> string" where
  "message (TypeError m) = m"
| "message (Error m) = m"

definition quoted :: "string \<Rightarrow> string" where
  "quoted s = CHR 0x27 # s @ [CHR 0x27]"

text \<open>Reading a property, \<^verbatim>\<open>x.k\<close>: a TypeError on undefined and null.\<close>

fun get_prop :: "jsval \<Rightarrow> string \<Rightarrow> js_error + jsval" where
  "get_prop JUndefined k =
     Inl (TypeError (''Cannot read properties of undefined (reading '' @ quoted k @ '')''))"
| "get_prop JNull k =
     Inl (TypeError (''Cannot read properties of null (reading '' @ quoted k @ '')''))"
| "get_prop (JObj fs) k = Inr (case map_of fs k of Some v \<Rightarrow> v | None \<Rightarrow> JUndefined)"
| "get_prop (JArr xs) k = Inr (if k = ''length'' then JNum (of_nat (length xs)) else JUndefined)"
| "get_prop (JStr s) k = Inr (if k = ''length'' then JNum (of_nat (length s)) else JUndefined)"
| "get_prop v k = Inr JUndefined"

text \<open>
  One name of a destructuring pattern, \<^verbatim>\<open>const { k, ... } = source\<close>: the pattern
  throws at its first name when the source is undefined or null, and reads the
  property otherwise.
\<close>

definition destructure :: "string \<Rightarrow> jsval \<Rightarrow> string \<Rightarrow> js_error + jsval" where
  "destructure source v k =
     (if v = JUndefined \<or> v = JNull then
        Inl (TypeError (''Cannot destructure property '' @ quoted k @ '' of '' @ quoted source
                        @ '' as it is '' @ (if v = JNull then ''null'' else ''undefined'') @ ''.''))
      else get_prop v k)"

text \<open>The element read \<^verbatim>\<open>x[0]\<close>.\<close>

fun index0 :: "jsval \<Rightarrow> js_error + jsval" where
  "index0 JUndefined =
     Inl (TypeError (''Cannot read properties of undefined (reading '' @ quoted ''0'' @ '')''))"
| "index0 JNull =
     Inl (TypeError (''Cannot read properties of null (reading '' @ quoted ''0'' @ '')''))"
| "index0 (JArr xs) = Inr (case xs of [] \<Rightarrow> JUndefined | x # _ \<Rightarrow> x)"
| "index0 (JObj fs) = Inr (case map_of fs ''0'' of Some v \<Rightarrow> v | None \<Rightarrow> JUndefined)"
| "index0 (JStr s) = Inr (case s of [] \<Rightarrow> JUndefined | c # _ \<Rightarrow> JStr [c])"
| "index0 v = Inr JUndefined"

text \<open>Truthiness, as \<^verbatim>\<open>||\<close> and \<^verbatim>\<open>if\<close> test it.\<close>

fun truthy :: "jsval \<Rightarrow> bool" where
  "truthy JUndefined = False"
| "truthy JNull = False"
| "truthy (JBool b) = b"
| "truthy (JNum r) = (r \<noteq> 0)"
| "truthy JNaN = False"
| "truthy (JStr s) = (s \<noteq> [])"
| "truthy v = True"

definition js_or :: "jsval \<Rightarrow> jsval \<Rightarrow> jsval" where
  "js_or a b = (if truthy a then a else b)"

text \<open>
  An object literal evaluates its property values in order; the first one that throws
  aborts the literal.
\<close>

type_synonym fields = "(string \<times> jsval) list"

fun obj_lit :: "(string \<times> (js_error + jsval)) list \<Rightarrow> js_error + fields" where
  "obj_lit [] = Inr []"
| "obj_lit ((k, Inl e) # fs) = Inl e"
| "obj_lit ((k, Inr v) # fs) =
     (case obj_lit fs of Inl e \<Rightarrow> Inl e | Inr r \<Rightarrow> Inr ((k, v) # r))"

definition and_then :: "js_error + 'a \<Rightarrow> ('a \<Rightarrow> js_error + 'b) \<Rightarrow> js_error + 'b" where
  "and_then r f = (case r of Inl e \<Rightarrow> Inl e | Inr x \<Rightarrow> f x)"

section \<open>The external collaborators\<close>

text \<open>
  A document is a map from field names to values. A resource path is a list of
  segments, alternately the name of a collection and the id of a document in it; a
  document reference is the path of its collection and its id. The Record Store holds,
  for every collection path, the documents of the collection in the order of creation.
\<close>

type_synonym doc = "string \<rightharpoonup> jsval"

datatype doc_key = Key string | AutoKey nat

type_synonym path = "doc_key list"

type_synonym doc_ref = "path \<times> doc_key"

datatype store_op =
    OpGet doc_ref
  | OpSet doc_ref fields
  | OpAdd path fields
  | OpQuery path string

datatype store_failure =
    InvalidPath jsval
  | NotADocument jsval
  | InvalidData fields
  | Unavailable store_op

datatype provider_call =
    CustomersList jsval
  | CustomersCreate jsval
  | PaymentIntentsCreate jsval
  | PaymentIntentsRetrieve jsval
  | TransfersCreate jsval

datatype validator = ValidatePaymentIntent | ValidateExpenseSubmit | ValidateExpenseReimbursement

text \<open>
  Everything the source takes from outside is a field of the environment of one request:
  whether the store client \<^verbatim>\<open>db\<close> was initialised, which store operations fail at
  the store, the text of the store client's errors, the clock, the provider's answers
  (\<open>Inl\<close> when the SDK call rejects), the signature check
  \<^verbatim>\<open>stripe.webhooks.constructEvent\<close> with the configured signing secret, the
  express-validator chains, and the engine's conversions and double arithmetic.
\<close>

record env =
  db_configured :: bool
  store_fault :: "store_op \<Rightarrow> bool"
  store_error_text :: "store_failure \<Rightarrow> string"
  server_time :: nat
  today :: string
  now_iso :: string
  now_ms :: string
  stripe_secret_key :: "string option"
  constructEvent :: "jsval \<Rightarrow> jsval \<Rightarrow> js_error + jsval"
  customers_list :: "jsval \<Rightarrow> js_error + jsval list"
  customers_create :: "jsval \<Rightarrow> js_error + jsval"
  paymentIntents_create :: "jsval \<Rightarrow> js_error + jsval"
  paymentIntents_retrieve :: "jsval \<Rightarrow> js_error + jsval"
  transfers_create :: "jsval \<Rightarrow> js_error + jsval"
  validation_errors :: "validator \<Rightarrow> jsval \<Rightarrow> jsval list"
  coerce_number :: "jsval \<Rightarrow> jsval"
  coerce_string :: "jsval \<Rightarrow> string"
  parseFloat :: "jsval \<Rightarrow> jsval"
  js_multiply :: "jsval \<Rightarrow> jsval \<Rightarrow> jsval"
  Math_round :: "jsval \<Rightarrow> jsval"

text \<open>
  The world a request runs in: the Record Store, the counter of generated document ids,
  the calls made to the provider so far, the reconciliation handlers entered so far, and
  the lines written to the console.
\<close>

record world =
  store :: "path \<Rightarrow> (doc_key \<times> doc) list"
  next_id :: nat
  provider_calls :: "provider_call list"
  handler_calls :: "string list"
  console :: "string list"

text \<open>A computation may throw and may change the world; the world it leaves is kept either way.\<close>

type_synonym 'a io = "world \<Rightarrow> (js_error + 'a) \<times> world"

definition io_return :: "'a \<Rightarrow> 'a io" where
  "io_return x = (\<lambda>w. (Inr x, w))"

definition io_lift :: "js_error + 'a \<Rightarrow> 'a io" where
  "io_lift r = (\<lambda>w. (r, w))"

definition io_bind :: "'a io \<Rightarrow> ('a \<Rightarrow> 'b io) \<Rightarrow> 'b io" where
  "io_bind m f = (\<lambda>w. case m w of (Inl e, w') \<Rightarrow> (Inl e, w') | (Inr x, w') \<Rightarrow> f x w')"

definition try_catch :: "'a io \<Rightarrow> (js_error \<Rightarrow> 'a io) \<Rightarrow> 'a io" where
  "try_catch m h = (\<lambda>w. case m w of (Inl e, w') \<Rightarrow> h e w' | (Inr x, w') \<Rightarrow> (Inr x, w'))"

definition console_log :: "string \<Rightarrow> unit io" where
  "console_log line = (\<lambda>w. (Inr (), w\<lparr>console := console w @ [line]\<rparr>))"

definition enter_handler :: "string \<Rightarrow> unit io" where
  "enter_handler name = (\<lambda>w. (Inr (), w\<lparr>handler_calls := handler_calls w @ [name]\<rparr>))"

subsection \<open>JavaScript conversions\<close>

fun toNumber :: "env \<Rightarrow> jsval \<Rightarrow> jsval" where
  "toNumber e (JNum r) = JNum r"
| "toNumber e JNaN = JNaN"
| "toNumber e JUndefined = JNaN"
| "toNumber e JNull = JNum 0"
| "toNumber e (JBool b) = JNum (if b then 1 else 0)"
| "toNumber e v = coerce_number e v"

definition js_div :: "env \<Rightarrow> jsval \<Rightarrow> rat \<Rightarrow> jsval" where
  "js_div e v c = (case toNumber e v of JNum r \<Rightarrow> JNum (r / c) | _ \<Rightarrow> JNaN)"

text \<open>\<^verbatim>\<open>Math.round(x * 100)\<close>, both operations being the engine's.\<close>

definition to_cents :: "env \<Rightarrow> jsval \<Rightarrow> jsval" where
  "to_cents e x = Math_round e (js_multiply e x (JNum 100))"

fun toString :: "env \<Rightarrow> jsval \<Rightarrow> string" where
  "toString e (JStr s) = s"
| "toString e JUndefined = ''undefined''"
| "toString e JNull = ''null''"
| "toString e (JBool b) = (if b then ''true'' else ''false'')"
| "toString e JNaN = ''NaN''"
| "toString e v = coerce_string e v"

subsection \<open>The Record Store and its client\<close>

text \<open>
  The client checks a path argument before anything is sent: it must be a non-empty
  string without \<^verbatim>\<open>//\<close>; it is split at the slashes, empty segments dropped. A
  generated id is a string too, of one segment.
\<close>

fun double_slash :: "string \<Rightarrow> bool" where
  "double_slash (a # b # cs) = ((a = CHR ''/'' \<and> b = CHR ''/'') \<or> double_slash (b # cs))"
| "double_slash cs = False"

fun segments :: "string \<Rightarrow> string \<Rightarrow> string list" where
  "segments acc [] = (if acc = [] then [] else [acc])"
| "segments acc (c # cs) =
     (if c = CHR ''/'' then (if acc = [] then segments [] cs else acc # segments [] cs)
      else segments (acc @ [c]) cs)"

definition store_error :: "env \<Rightarrow> store_failure \<Rightarrow> js_error" where
  "store_error e f = Error (store_error_text e f)"

definition resource_path :: "env \<Rightarrow> jsval \<Rightarrow> js_error + path" where
  "resource_path e x =
     (case x of
        JStr s \<Rightarrow> if s = [] \<or> double_slash s then Inl (store_error e (InvalidPath x))
                  else Inr (map Key (segments [] s))
      | AutoId n \<Rightarrow> Inr [AutoKey n]
      | _ \<Rightarrow> Inl (store_error e (InvalidPath x)))"

text \<open>
  \<^verbatim>\<open>collection.doc(x)\<close>: the segments of \<open>x\<close> are appended to the path of the
  collection, and the result must be the path of a document, of even length.
\<close>

definition doc_ref :: "env \<Rightarrow> path \<Rightarrow> jsval \<Rightarrow> js_error + doc_ref" where
  "doc_ref e c x =
     and_then (resource_path e x) (\<lambda>segs.
       if segs \<noteq> [] \<and> even (length (c @ segs)) then Inr (c @ butlast segs, last segs)
       else Inl (store_error e (NotADocument x)))"

text \<open>
  \<^verbatim>\<open>db.collection('artifacts').doc(org).collection('users').doc(member)\<close>, then
  \<^verbatim>\<open>.collection(name)\<close> and \<^verbatim>\<open>.collection(name).doc(x)\<close>. With no store client
  (\<^verbatim>\<open>db = null\<close>) the first property read throws.
\<close>

definition member_doc :: "env \<Rightarrow> jsval \<Rightarrow> jsval \<Rightarrow> js_error + path" where
  "member_doc e organizationId memberId =
     (if \<not> db_configured e then
        Inl (TypeError (''Cannot read properties of null (reading '' @ quoted ''collection'' @ '')''))
      else
        and_then (doc_ref e [Key ''artifacts''] organizationId) (\<lambda>org.
        and_then (doc_ref e (fst org @ [snd org, Key ''users'']) memberId) (\<lambda>user.
        Inr (fst user @ [snd user]))))"

definition member_collection :: "env \<Rightarrow> jsval \<Rightarrow> jsval \<Rightarrow> string \<Rightarrow> js_error + path" where
  "member_collection e organizationId memberId name =
     and_then (member_doc e organizationId memberId) (\<lambda>user. Inr (user @ [Key name]))"

definition record_ref :: "env \<Rightarrow> jsval \<Rightarrow> jsval \<Rightarrow> string \<Rightarrow> jsval \<Rightarrow> js_error + doc_ref" where
  "record_ref e organizationId memberId name x =
     and_then (member_collection e organizationId memberId name) (\<lambda>c. doc_ref e c x)"

text \<open>
  The client refuses data with an undefined value anywhere in it (the option
  \<^verbatim>\<open>ignoreUndefinedProperties\<close> is never set), again before anything is sent.
\<close>

fun storable :: "jsval \<Rightarrow> bool" where
  "storable JUndefined = False"
| "storable (JArr xs) = list_all storable xs"
| "storable (JObj fs) = list_all (\<lambda>p. storable (snd p)) fs"
| "storable v = True"

definition storable_fields :: "fields \<Rightarrow> bool" where
  "storable_fields fs = list_all (\<lambda>p. storable (snd p)) fs"

text \<open>
  \<^verbatim>\<open>ref.set(data, {merge: true})\<close>: creates the document, or overwrites the given fields
  of the existing one and keeps its other fields.
\<close>

fun upsert :: "doc_key \<Rightarrow> doc \<Rightarrow> (doc_key \<times> doc) list \<Rightarrow> (doc_key \<times> doc) list" where
  "upsert i d [] = [(i, d)]"
| "upsert i d ((j, old) # xs) =
     (if j = i then (j, old ++ d) # xs else (j, old) # upsert i d xs)"

definition doc_set_merge :: "env \<Rightarrow> doc_ref \<Rightarrow> fields \<Rightarrow> unit io" where
  "doc_set_merge e r fs =
     (\<lambda>w. if \<not> storable_fields fs then (Inl (store_error e (InvalidData fs)), w)
          else if store_fault e (OpSet r fs) then (Inl (store_error e (Unavailable (OpSet r fs))), w)
          else (Inr (),
                w\<lparr>store := (store w)(fst r := upsert (snd r) (map_of fs) (store w (fst r)))\<rparr>))"

text \<open>\<^verbatim>\<open>collection.add(data)\<close>: a new document under a generated id.\<close>

definition collection_add :: "env \<Rightarrow> path \<Rightarrow> fields \<Rightarrow> unit io" where
  "collection_add e c fs =
     (\<lambda>w. if \<not> storable_fields fs then (Inl (store_error e (InvalidData fs)), w)
          else if store_fault e (OpAdd c fs) then (Inl (store_error e (Unavailable (OpAdd c fs))), w)
          else (Inr (),
                w\<lparr>store := (store w)(c := store w c @ [(AutoKey (next_id w), map_of fs)]),
                  next_id := Suc (next_id w)\<rparr>))"

text \<open>\<^verbatim>\<open>ref.get()\<close>: the snapshot of one document, \<open>None\<close> when it does not exist.\<close>

definition doc_get :: "env \<Rightarrow> doc_ref \<Rightarrow> doc option io" where
  "doc_get e r =
     (\<lambda>w. if store_fault e (OpGet r) then (Inl (store_error e (Unavailable (OpGet r))), w)
          else (Inr (map_of (store w (fst r)) (snd r)), w))"

subsection \<open>The payment provider\<close>

definition provider :: "provider_call \<Rightarrow> js_error + 'a \<Rightarrow> 'a io" where
  "provider c r = (\<lambda>w. (r, w\<lparr>provider_calls := provider_calls w @ [c]\<rparr>))"

section \<open>Event Reconciliation\<close>

text \<open>
  A response is its status code and its body: a JSON value, a text, or the list of
  payment documents of the history route.
\<close>

datatype resp_body = Json jsval | Text string | Payments "doc list"

type_synonym response = "nat \<times> resp_body"

text \<open>
  The object literals that the handlers pass to the store, and the reference of the
  Dues record, \<^verbatim>\<open>...collection('dues').doc(memberId)\<close>.
\<close>

definition paid_dues_fields :: "env \<Rightarrow> jsval \<Rightarrow> jsval \<Rightarrow> js_error + fields" where
  "paid_dues_fields e paymentIntent memberName =
     obj_lit
       [(''memberName'', Inr memberName),
        (''amount'', and_then (get_prop paymentIntent ''amount'') (\<lambda>a. Inr (js_div e a 100))),
        (''status'', Inr (JStr ''Paid'')),
        (''dueDate'', Inr (JStr (today e))),
        (''paidDate'', Inr (JStr (today e))),
        (''paymentIntentId'', get_prop paymentIntent ''id''),
        (''stripeChargeId'', get_prop paymentIntent ''latest_charge'')]"

definition donation_fields :: "env \<Rightarrow> jsval \<Rightarrow> jsval \<Rightarrow> js_error + fields" where
  "donation_fields e paymentIntent memberName =
     obj_lit
       [(''campaignName'', get_prop paymentIntent ''description''),
        (''donorName'', Inr memberName),
        (''amount'', and_then (get_prop paymentIntent ''amount'') (\<lambda>a. Inr (js_div e a 100))),
        (''date'', Inr (JStr (today e))),
        (''paymentIntentId'', get_prop paymentIntent ''id'')]"

text \<open>
  \<^verbatim>\<open>paymentIntent.last_payment_error?.message || 'Payment failed'\<close> reads the message
  only of an error that is neither undefined nor null.
\<close>

definition failure_reason :: "jsval \<Rightarrow> js_error + jsval" where
  "failure_reason paymentIntent =
     and_then (get_prop paymentIntent ''last_payment_error'') (\<lambda>err.
       and_then (if err = JUndefined \<or> err = JNull then Inr JUndefined else get_prop err ''message'')
         (\<lambda>m. Inr (js_or m (JStr ''Payment failed''))))"

definition failed_dues_fields :: "env \<Rightarrow> jsval \<Rightarrow> jsval \<Rightarrow> js_error + fields" where
  "failed_dues_fields e paymentIntent memberName =
     obj_lit
       [(''memberName'', Inr memberName),
        (''amount'', and_then (get_prop paymentIntent ''amount'') (\<lambda>a. Inr (js_div e a 100))),
        (''status'', Inr (JStr ''Failed'')),
        (''dueDate'', Inr (JStr (today e))),
        (''paymentIntentId'', get_prop paymentIntent ''id''),
        (''failureReason'', failure_reason paymentIntent)]"

definition first_refund_id :: "jsval \<Rightarrow> js_error + jsval" where
  "first_refund_id charge =
     and_then (get_prop charge ''refunds'') (\<lambda>refunds.
     and_then (get_prop refunds ''data'') (\<lambda>entries.
     and_then (index0 entries) (\<lambda>entry. get_prop entry ''id'')))"

definition refunded_dues_fields :: "env \<Rightarrow> jsval \<Rightarrow> jsval \<Rightarrow> js_error + fields" where
  "refunded_dues_fields e charge memberName =
     obj_lit
       [(''memberName'', Inr memberName),
        (''amount'', and_then (get_prop charge ''amount_refunded'') (\<lambda>a. Inr (js_div e a 100))),
        (''status'', Inr (JStr ''Refunded'')),
        (''refundDate'', Inr (JStr (today e))),
        (''refundId'', first_refund_id charge)]"

definition dues_ref :: "env \<Rightarrow> jsval \<Rightarrow> jsval \<Rightarrow> js_error + doc_ref" where
  "dues_ref e organizationId memberId = record_ref e organizationId memberId ''dues'' memberId"

text \<open>
  \<^verbatim>\<open>handlePaymentSuccess\<close>. The metadata is destructured before the \<^verbatim>\<open>try\<close>
  block; everything after it runs inside the block, whose handler only logs. The first
  step of each handler stands for the call of the handler: it notes the handler's name
  in the world, so that the absence of a handler call can be stated.
\<close>

definition handlePaymentSuccess :: "env \<Rightarrow> jsval \<Rightarrow> unit io" where
  "handlePaymentSuccess e paymentIntent =
     io_bind (enter_handler ''handlePaymentSuccess'') (\<lambda>_.
     io_bind (io_lift (get_prop paymentIntent ''metadata'')) (\<lambda>metadata.
     io_bind (io_lift (destructure ''paymentIntent.metadata'' metadata ''memberId'')) (\<lambda>memberId.
     io_bind (io_lift (destructure ''paymentIntent.metadata'' metadata ''organizationId''))
       (\<lambda>organizationId.
     io_bind (io_lift (destructure ''paymentIntent.metadata'' metadata ''paymentType''))
       (\<lambda>paymentType.
     io_bind (io_lift (destructure ''paymentIntent.metadata'' metadata ''memberName''))
       (\<lambda>memberName.
     try_catch
       (io_bind (io_lift (dues_ref e organizationId memberId)) (\<lambda>duesRef.
        io_bind (io_lift (paid_dues_fields e paymentIntent memberName)) (\<lambda>data.
        io_bind (doc_set_merge e duesRef data) (\<lambda>_.
        io_bind
          (if paymentType = JStr ''donation'' then
             io_bind (io_lift (member_collection e organizationId memberId ''donations''))
               (\<lambda>donations.
             io_bind (io_lift (donation_fields e paymentIntent memberName)) (\<lambda>donation.
             collection_add e donations donation))
           else io_return ()) (\<lambda>_.
        console_log (''Payment succeeded for member '' @ toString e memberName
                     @ '' in organization '' @ toString e organizationId))))))
       (\<lambda>error. console_log ''Error updating payment success:'')))))))"

text \<open>\<^verbatim>\<open>handlePaymentFailure\<close>, of the same shape.\<close>

definition handlePaymentFailure :: "env \<Rightarrow> jsval \<Rightarrow> unit io" where
  "handlePaymentFailure e paymentIntent =
     io_bind (enter_handler ''handlePaymentFailure'') (\<lambda>_.
     io_bind (io_lift (get_prop paymentIntent ''metadata'')) (\<lambda>metadata.
     io_bind (io_lift (destructure ''paymentIntent.metadata'' metadata ''memberId'')) (\<lambda>memberId.
     io_bind (io_lift (destructure ''paymentIntent.metadata'' metadata ''organizationId''))
       (\<lambda>organizationId.
     io_bind (io_lift (destructure ''paymentIntent.metadata'' metadata ''memberName''))
       (\<lambda>memberName.
     try_catch
       (io_bind (io_lift (dues_ref e organizationId memberId)) (\<lambda>duesRef.
        io_bind (io_lift (failed_dues_fields e paymentIntent memberName)) (\<lambda>data.
        io_bind (doc_set_merge e duesRef data) (\<lambda>_.
        console_log (''Payment failed for member '' @ toString e memberName
                     @ '' in organization '' @ toString e organizationId)))))
       (\<lambda>error. console_log ''Error updating payment failure:''))))))"

text \<open>
  \<^verbatim>\<open>handleRefund\<close>: the whole body, the provider call and the destructuring of the
  metadata included, is inside the \<^verbatim>\<open>try\<close> block.
\<close>

definition handleRefund :: "env \<Rightarrow> jsval \<Rightarrow> unit io" where
  "handleRefund e charge =
     io_bind (enter_handler ''handleRefund'') (\<lambda>_.
     try_catch
       (io_bind (io_lift (get_prop charge ''payment_intent'')) (\<lambda>intentId.
        io_bind (provider (PaymentIntentsRetrieve intentId) (paymentIntents_retrieve e intentId))
          (\<lambda>paymentIntent.
        io_bind (io_lift (get_prop paymentIntent ''metadata'')) (\<lambda>metadata.
        io_bind (io_lift (destructure ''paymentIntent.metadata'' metadata ''memberId''))
          (\<lambda>memberId.
        io_bind (io_lift (destructure ''paymentIntent.metadata'' metadata ''organizationId''))
          (\<lambda>organizationId.
        io_bind (io_lift (destructure ''paymentIntent.metadata'' metadata ''memberName''))
          (\<lambda>memberName.
        io_bind (io_lift (dues_ref e organizationId memberId)) (\<lambda>duesRef.
        io_bind (io_lift (refunded_dues_fields e charge memberName)) (\<lambda>data.
        io_bind (doc_set_merge e duesRef data) (\<lambda>_.
        console_log (''Refund processed for member '' @ toString e memberName
                     @ '' in organization '' @ toString e organizationId)))))))))))
       (\<lambda>error. console_log ''Error updating refund:''))"

text \<open>
  A request: its headers, its body and its route parameters. The route
  \<^verbatim>\<open>POST /api/webhooks/stripe\<close> checks the signature first and returns at once when the
  check throws; only then does it dispatch on the event type, inside a \<^verbatim>\<open>try\<close> block
  whose handler answers 500.
\<close>

record request =
  headers :: "(string \<times> jsval) list"
  body :: jsval
  params :: "(string \<times> jsval) list"

definition header :: "request \<Rightarrow> string \<Rightarrow> jsval" where
  "header req k = (case map_of (headers req) k of Some v \<Rightarrow> v | None \<Rightarrow> JUndefined)"

definition event_object :: "jsval \<Rightarrow> js_error + jsval" where
  "event_object event = and_then (get_prop event ''data'') (\<lambda>d. get_prop d ''object'')"

definition dispatch :: "env \<Rightarrow> jsval \<Rightarrow> unit io" where
  "dispatch e event =
     io_bind (io_lift (get_prop event ''type'')) (\<lambda>ty.
       if ty = JStr ''payment_intent.succeeded'' then
         io_bind (io_lift (event_object event)) (handlePaymentSuccess e)
       else if ty = JStr ''payment_intent.payment_failed'' then
         io_bind (io_lift (event_object event)) (handlePaymentFailure e)
       else if ty = JStr ''charge.refunded'' then
         io_bind (io_lift (event_object event)) (handleRefund e)
       else console_log (''Unhandled event type: '' @ toString e ty))"

definition received :: response where
  "received = (200, Json (JObj [(''received'', JBool True)]))"

definition webhook :: "env \<Rightarrow> request \<Rightarrow> world \<Rightarrow> response \<times> world" where
  "webhook e req w =
     (case constructEvent e (body req) (header req ''stripe-signature'') of
        Inl err \<Rightarrow>
          ((400, Text (''Webhook Error: '' @ message err)),
           w\<lparr>console := console w @ [''Webhook signature verification failed:'']\<rparr>)
      | Inr event \<Rightarrow>
          (case dispatch e event w of
             (Inr _, w') \<Rightarrow> (received, w')
           | (Inl error, w') \<Rightarrow>
               ((500, Json (JObj [(''error'', JStr ''Webhook processing failed'')])),
                w'\<lparr>console := console w' @ [''Error processing webhook:'']\<rparr>)))"

section \<open>The synchronous routes\<close>

text \<open>
  Each route body is one \<^verbatim>\<open>try\<close> block whose handler logs and answers 500, so a
  route always produces a response; an early \<^verbatim>\<open>return res...\<close> is the \<open>Inl\<close> of
  a step that either finishes the request or hands on a value. The second branch of
  \<open>respond\<close> is the server's error middleware; no route reaches it, since no
  \<^verbatim>\<open>catch\<close> block throws.
\<close>

definition respond :: "response io \<Rightarrow> world \<Rightarrow> response \<times> world" where
  "respond m w =
     (case m w of
        (Inr r, w') \<Rightarrow> (r, w')
      | (Inl err, w') \<Rightarrow>
          ((500, Json (JObj [(''error'', JStr ''Internal server error'')])), w'))"

definition validation_failed :: "jsval list \<Rightarrow> response" where
  "validation_failed errors =
     (400, Json (JObj [(''error'', JStr ''Validation failed''), (''details'', JArr errors)]))"

definition member_not_found :: response where
  "member_not_found = (404, Json (JObj [(''error'', JStr ''Member not found'')]))"

definition doc_field :: "doc \<Rightarrow> string \<Rightarrow> jsval" where
  "doc_field d k = (case d k of Some v \<Rightarrow> v | None \<Rightarrow> JUndefined)"

text \<open>
  Look the customer up by e-mail address and create it when the list is empty
  (\<^verbatim>\<open>existingCustomers.data.length > 0\<close>), as three routes do.
\<close>

definition resolve_customer :: "env \<Rightarrow> doc \<Rightarrow> jsval \<Rightarrow> jsval \<Rightarrow> jsval io" where
  "resolve_customer e memberData memberId organizationId =
     (let query = JObj [(''email'', doc_field memberData ''email''), (''limit'', JNum 1)] in
      io_bind (provider (CustomersList query) (customers_list e query)) (\<lambda>existingCustomers.
        case existingCustomers of
          c # _ \<Rightarrow> io_return c
        | [] \<Rightarrow>
            (let args = JObj [(''email'', doc_field memberData ''email''),
                              (''name'', doc_field memberData ''name''),
                              (''metadata'', JObj [(''memberId'', memberId),
                                                   (''organizationId'', organizationId)])]
             in provider (CustomersCreate args) (customers_create e args))))"

text \<open>
  The member data of the intent-issuance route: with a store client the member document,
  which must exist; without one the demo member.
\<close>

definition demo_member :: doc where
  "demo_member = map_of [(''name'', JStr ''Demo Member''), (''email'', JStr ''demo@example.com'')]"

definition require_member :: "env \<Rightarrow> jsval \<Rightarrow> jsval \<Rightarrow> (response + doc) io" where
  "require_member e organizationId memberId =
     (if db_configured e then
        io_bind (io_lift (record_ref e organizationId memberId ''members'' memberId)) (\<lambda>memberRef.
        io_bind (doc_get e memberRef) (\<lambda>memberDoc.
          case memberDoc of
            None \<Rightarrow> io_return (Inl member_not_found)
          | Some d \<Rightarrow> io_return (Inr d)))
      else
        io_bind (console_log ''Running in demo mode - using default member data'') (\<lambda>_.
        io_return (Inr demo_member)))"

text \<open>
  \<^verbatim>\<open>POST /api/payments/create-payment-intent\<close>. The creation time of the logged record
  is the store's time (\<^verbatim>\<open>FieldValue.serverTimestamp()\<close>).
\<close>

definition create_payment_intent :: "env \<Rightarrow> request \<Rightarrow> world \<Rightarrow> response \<times> world" where
  "create_payment_intent e req =
     respond (try_catch
       (if validation_errors e ValidatePaymentIntent (body req) \<noteq> [] then
          io_return (validation_failed (validation_errors e ValidatePaymentIntent (body req)))
        else
          io_bind (io_lift (destructure ''req.body'' (body req) ''amount'')) (\<lambda>amount.
          io_bind (io_lift (destructure ''req.body'' (body req) ''currency'')) (\<lambda>currency.
          io_bind (io_lift (destructure ''req.body'' (body req) ''memberId'')) (\<lambda>memberId.
          io_bind (io_lift (destructure ''req.body'' (body req) ''organizationId''))
            (\<lambda>organizationId.
          io_bind (io_lift (destructure ''req.body'' (body req) ''description'')) (\<lambda>description.
          io_bind (require_member e organizationId memberId) (\<lambda>found.
            case found of
              Inl notFound \<Rightarrow> io_return notFound
            | Inr memberData \<Rightarrow>
          io_bind (resolve_customer e memberData memberId organizationId) (\<lambda>customer.
          io_bind (io_lift (obj_lit
            [(''amount'', Inr amount),
             (''currency'', Inr currency),
             (''customer'', get_prop customer ''id''),
             (''description'', Inr description),
             (''metadata'', Inr (JObj [(''memberId'', memberId),
                                       (''organizationId'', organizationId),
                                       (''paymentType'', JStr ''dues''),
                                       (''memberName'', doc_field memberData ''name'')])),
             (''automatic_payment_methods'', Inr (JObj [(''enabled'', JBool True)]))])) (\<lambda>args.
          io_bind (provider (PaymentIntentsCreate (JObj args)) (paymentIntents_create e (JObj args)))
            (\<lambda>paymentIntent.
          io_bind
            (if db_configured e then
               io_bind (io_lift (member_collection e organizationId memberId ''payment_intents''))
                 (\<lambda>intents.
               io_bind (io_lift (obj_lit
                 [(''paymentIntentId'', get_prop paymentIntent ''id''),
                  (''amount'', Inr amount),
                  (''currency'', Inr currency),
                  (''status'', get_prop paymentIntent ''status''),
                  (''description'', Inr description),
                  (''createdAt'', Inr (Timestamp (server_time e))),
                  (''memberId'', Inr memberId),
                  (''memberName'', Inr (doc_field memberData ''name''))])) (\<lambda>record.
               collection_add e intents record))
             else io_return ()) (\<lambda>_.
          io_bind (io_lift (obj_lit
            [(''clientSecret'', get_prop paymentIntent ''client_secret''),
             (''paymentIntentId'', get_prop paymentIntent ''id'')])) (\<lambda>out.
          io_return (200, Json (JObj out))))))))))))))
       (\<lambda>error.
          io_bind (console_log ''Error creating payment intent:'') (\<lambda>_.
          io_return (500, Json (JObj [(''error'', JStr ''Failed to create payment intent''),
                                      (''message'', JStr (message error))])))))"

text \<open>
  \<^verbatim>\<open>POST /api/expenses/submit\<close>. The member data are the member document when there
  is a store client and the document exists, and the submitter's name with the demo
  address otherwise. Without a provider key the route answers with a mock intent; a
  provider failure inside the inner \<^verbatim>\<open>try\<close> block gives the mock answer too.
\<close>

definition mock_expense_response :: "env \<Rightarrow> string \<Rightarrow> response" where
  "mock_expense_response e msg =
     (200, Json (JObj [(''success'', JBool True),
                       (''expenseId'', JStr (now_ms e)),
                       (''paymentIntentId'', JStr (''pi_mock_expense_'' @ now_ms e)),
                       (''clientSecret'', JStr (''pi_mock_secret_'' @ now_ms e)),
                       (''demo'', JBool True),
                       (''message'', JStr msg)]))"

definition key_missing :: "env \<Rightarrow> bool" where
  "key_missing e = (stripe_secret_key e = None \<or> stripe_secret_key e = Some [])"

definition submitter_as_member :: "jsval \<Rightarrow> doc" where
  "submitter_as_member submitterName =
     map_of [(''name'', submitterName), (''email'', JStr ''demo@example.com'')]"

definition member_or_submitter :: "env \<Rightarrow> jsval \<Rightarrow> jsval \<Rightarrow> jsval \<Rightarrow> doc io" where
  "member_or_submitter e organizationId memberId submitterName =
     (if db_configured e then
        io_bind (io_lift (record_ref e organizationId memberId ''members'' memberId)) (\<lambda>memberRef.
        io_bind (doc_get e memberRef) (\<lambda>memberDoc.
          case memberDoc of
            None \<Rightarrow> io_return (submitter_as_member submitterName)
          | Some d \<Rightarrow> io_return d))
      else io_return (submitter_as_member submitterName))"

definition submit_expense :: "env \<Rightarrow> request \<Rightarrow> world \<Rightarrow> response \<times> world" where
  "submit_expense e req =
     respond (try_catch
       (if validation_errors e ValidateExpenseSubmit (body req) \<noteq> [] then
          io_return (validation_failed (validation_errors e ValidateExpenseSubmit (body req)))
        else
          io_bind (io_lift (destructure ''req.body'' (body req) ''submitterName''))
            (\<lambda>submitterName.
          io_bind (io_lift (destructure ''req.body'' (body req) ''amount'')) (\<lambda>amount.
          io_bind (io_lift (destructure ''req.body'' (body req) ''category'')) (\<lambda>category.
          io_bind (io_lift (destructure ''req.body'' (body req) ''description'')) (\<lambda>description.
          io_bind (io_lift (destructure ''req.body'' (body req) ''memberId'')) (\<lambda>memberId.
          io_bind (io_lift (destructure ''req.body'' (body req) ''organizationId''))
            (\<lambda>organizationId.
          io_bind (io_lift (destructure ''req.body'' (body req) ''receiptUrl'')) (\<lambda>receiptUrl.
          let expenseData =
                [(''submitterName'', submitterName),
                 (''amount'', parseFloat e amount),
                 (''category'', category),
                 (''description'', description),
                 (''date'', JStr (today e)),
                 (''status'', JStr ''Pending''),
                 (''receiptUrl'', js_or receiptUrl (JStr [])),
                 (''submittedAt'', JStr (now_iso e)),
                 (''memberId'', memberId),
                 (''organizationId'', organizationId)]
          in
          io_bind
            (if db_configured e then
               io_bind (io_lift (member_collection e organizationId memberId ''expenses''))
                 (\<lambda>expenses.
               collection_add e expenses expenseData)
             else io_return ()) (\<lambda>_.
          io_bind (member_or_submitter e organizationId memberId submitterName) (\<lambda>memberData.
          if key_missing e \<or> stripe_secret_key e = Some ''sk_test_your_stripe_secret_key_here'' then
            io_bind (console_log ''Running in demo mode - returning mock payment intent for expense'')
              (\<lambda>_.
            io_return (mock_expense_response e
              ''Expense submitted successfully! (Demo mode - no payment required)''))
          else if key_missing e then
            io_bind (console_log ''Stripe not properly configured - returning demo response'') (\<lambda>_.
            io_return (mock_expense_response e
              ''Expense submitted successfully! (Demo mode - no payment required)''))
          else
            try_catch
              (io_bind (resolve_customer e memberData memberId organizationId) (\<lambda>customer.
               io_bind (io_lift (obj_lit
                 [(''amount'', Inr (to_cents e (parseFloat e amount))),
                  (''currency'', Inr (JStr ''usd'')),
                  (''customer'', get_prop customer ''id''),
                  (''description'', Inr (JStr (''Expense: '' @ toString e description))),
                  (''metadata'', Inr (JObj [(''memberId'', memberId),
                                            (''organizationId'', organizationId),
                                            (''paymentType'', JStr ''expense''),
                                            (''memberName'', doc_field memberData ''name''),
                                            (''category'', category),
                                            (''expenseId'', JStr (now_ms e))])),
                  (''automatic_payment_methods'', Inr (JObj [(''enabled'', JBool True)]))]))
                 (\<lambda>args.
               io_bind (provider (PaymentIntentsCreate (JObj args))
                          (paymentIntents_create e (JObj args))) (\<lambda>paymentIntent.
               io_bind (io_lift (obj_lit
                 [(''success'', Inr (JBool True)),
                  (''expenseId'', Inr (JStr (now_ms e))),
                  (''paymentIntentId'', get_prop paymentIntent ''id''),
                  (''clientSecret'', get_prop paymentIntent ''client_secret''),
                  (''message'', Inr (JStr
                     ''Expense submitted successfully. Payment required to complete submission.''))]))
                 (\<lambda>out.
               io_return (200, Json (JObj out)))))))
              (\<lambda>stripeError.
                 io_bind (console_log ''Stripe error:'') (\<lambda>_.
                 io_return (mock_expense_response e
                   ''Expense submitted successfully! (Demo mode - Stripe error handled)'')))))))))))))
       (\<lambda>error.
          io_bind (console_log ''Error submitting expense:'') (\<lambda>_.
          io_return (500, Json (JObj [(''error'', JStr ''Failed to submit expense''),
                                      (''message'', JStr (message error))])))))"

text \<open>
  \<^verbatim>\<open>POST /api/expenses/process-reimbursement\<close>. The member is looked up before any
  provider call, and the route returns 404 when the document does not exist.
\<close>

definition process_reimbursement :: "env \<Rightarrow> request \<Rightarrow> world \<Rightarrow> response \<times> world" where
  "process_reimbursement e req =
     respond (try_catch
       (if validation_errors e ValidateExpenseReimbursement (body req) \<noteq> [] then
          io_return (validation_failed (validation_errors e ValidateExpenseReimbursement (body req)))
        else
          io_bind (io_lift (destructure ''req.body'' (body req) ''amount'')) (\<lambda>amount.
          io_bind (io_lift (destructure ''req.body'' (body req) ''memberId'')) (\<lambda>memberId.
          io_bind (io_lift (destructure ''req.body'' (body req) ''organizationId''))
            (\<lambda>organizationId.
          io_bind (io_lift (destructure ''req.body'' (body req) ''description'')) (\<lambda>description.
          io_bind (io_lift (destructure ''req.body'' (body req) ''receiptUrl'')) (\<lambda>receiptUrl.
          io_bind (io_lift (record_ref e organizationId memberId ''members'' memberId))
            (\<lambda>memberRef.
          io_bind (doc_get e memberRef) (\<lambda>memberDoc.
            case memberDoc of
              None \<Rightarrow> io_return member_not_found
            | Some memberData \<Rightarrow>
          io_bind (resolve_customer e memberData memberId organizationId) (\<lambda>customer.
          io_bind (io_lift (obj_lit
            [(''amount'', Inr (to_cents e amount)),
             (''currency'', Inr (JStr ''usd'')),
             (''destination'', get_prop customer ''id''),
             (''description'', Inr (JStr (''Reimbursement: '' @ toString e description))),
             (''metadata'', Inr (JObj [(''memberId'', memberId),
                                       (''organizationId'', organizationId),
                                       (''memberName'', doc_field memberData ''name''),
                                       (''expenseType'', JStr ''reimbursement'')]))])) (\<lambda>args.
          io_bind (provider (TransfersCreate (JObj args)) (transfers_create e (JObj args)))
            (\<lambda>transfer.
          io_bind (io_lift (and_then (member_collection e organizationId memberId ''expenses'')
                     (\<lambda>expenses. and_then (get_prop (body req) ''expenseId'') (doc_ref e expenses))))
            (\<lambda>expenseRef.
          io_bind (io_lift (obj_lit
            [(''status'', Inr (JStr ''Reimbursed'')),
             (''reimbursementDate'', Inr (JStr (today e))),
             (''transferId'', get_prop transfer ''id''),
             (''receiptUrl'', Inr (js_or receiptUrl (JStr [])))])) (\<lambda>update.
          io_bind (doc_set_merge e expenseRef update) (\<lambda>_.
          io_bind (io_lift (obj_lit
            [(''success'', Inr (JBool True)),
             (''transferId'', get_prop transfer ''id''),
             (''message'', Inr (JStr ''Reimbursement processed successfully''))])) (\<lambda>out.
          io_return (200, Json (JObj out)))))))))))))))))
       (\<lambda>error.
          io_bind (console_log ''Error processing reimbursement:'') (\<lambda>_.
          io_return (500, Json (JObj [(''error'', JStr ''Failed to process reimbursement''),
                                      (''message'', JStr (message error))])))))"

subsection \<open>History Query\<close>

text \<open>
  \<^verbatim>\<open>collection.orderBy(field, 'desc').get()\<close>: the store leaves out the documents
  that lack the field and returns the others by descending value of the field. Values
  are compared by kind first (null, booleans, numbers, times, strings, then the rest),
  then by value within the kind; times are compared as times.
\<close>

fun order_key :: "jsval \<Rightarrow> nat \<times> rat \<times> string" where
  "order_key JNull = (0, 0, [])"
| "order_key (JBool b) = (1, (if b then 1 else 0), [])"
| "order_key JNaN = (2, 0, [])"
| "order_key (JNum r) = (3, r, [])"
| "order_key (Timestamp t) = (4, of_nat t, [])"
| "order_key (JStr s) = (5, 0, s)"
| "order_key (AutoId n) = (5, of_nat n, [])"
| "order_key (JArr xs) = (6, 0, [])"
| "order_key (JObj fs) = (7, 0, [])"
| "order_key JUndefined = (8, 0, [])"

definition field_key :: "string \<Rightarrow> doc \<Rightarrow> nat \<times> rat \<times> string" where
  "field_key f d = order_key (doc_field d f)"

definition order_by_desc :: "string \<Rightarrow> (doc_key \<times> doc) list \<Rightarrow> (doc_key \<times> doc) list" where
  "order_by_desc f ds =
     rev (sort_key (\<lambda>(i, d). field_key f d) (filter (\<lambda>(i, d). d f \<noteq> None) ds))"

definition query_order_by_desc :: "env \<Rightarrow> path \<Rightarrow> string \<Rightarrow> (doc_key \<times> doc) list io" where
  "query_order_by_desc e c f =
     (\<lambda>w. if store_fault e (OpQuery c f)
          then (Inl (store_error e (Unavailable (OpQuery c f))), w)
          else (Inr (order_by_desc f (store w c)), w))"

text \<open>
  \<^verbatim>\<open>GET /api/payments/history/:organizationId/:memberId\<close>; each entry is
  \<^verbatim>\<open>{id: doc.id, ...doc.data()}\<close>.
\<close>

fun key_value :: "doc_key \<Rightarrow> jsval" where
  "key_value (Key s) = JStr s"
| "key_value (AutoKey n) = AutoId n"

definition with_id :: "doc_key \<times> doc \<Rightarrow> doc" where
  "with_id = (\<lambda>(i, d). [''id'' \<mapsto> key_value i] ++ d)"

definition payment_history :: "env \<Rightarrow> request \<Rightarrow> world \<Rightarrow> response \<times> world" where
  "payment_history e req =
     respond (try_catch
       (io_bind (io_lift (destructure ''req.params'' (JObj (params req)) ''organizationId''))
          (\<lambda>organizationId.
        io_bind (io_lift (destructure ''req.params'' (JObj (params req)) ''memberId''))
          (\<lambda>memberId.
        io_bind (io_lift (member_collection e organizationId memberId ''payment_intents''))
          (\<lambda>paymentsRef.
        io_bind (query_order_by_desc e paymentsRef ''createdAt'') (\<lambda>snapshot.
        io_return (200, Payments (map with_id snapshot)))))))
       (\<lambda>error.
          io_bind (console_log ''Error fetching payment history:'') (\<lambda>_.
          io_return (500, Json (JObj [(''error'', JStr ''Failed to fetch payment history''),
                                      (''message'', JStr (message error))])))))"

section \<open>Notions used to state the properties\<close>

definition lookup_doc :: "world \<Rightarrow> doc_ref \<Rightarrow> doc option" where
  "lookup_doc w r = map_of (store w (fst r)) (snd r)"

definition status_of :: "world \<Rightarrow> doc_ref \<Rightarrow> jsval option" where
  "status_of w r = (case lookup_doc w r of None \<Rightarrow> None | Some d \<Rightarrow> d ''status'')"

definition terminal :: "jsval option \<Rightarrow> bool" where
  "terminal s = (s = Some (JStr ''Paid'') \<or> s = Some (JStr ''Failed'') \<or> s = Some (JStr ''Refunded''))"

text \<open>The server handling a sequence of webhook deliveries, one after the other.\<close>

fun run_events :: "(env \<times> request) list \<Rightarrow> world \<Rightarrow> world" where
  "run_events [] w = w"
| "run_events ((e, req) # evs) w = run_events evs (snd (webhook e req w))"

text \<open>A computation keeps a property of the world, whether it returns or throws.\<close>

definition keeps :: "(world \<Rightarrow> bool) \<Rightarrow> 'a io \<Rightarrow> bool" where
  "keeps P m = (\<forall>w. P w \<longrightarrow> P (snd (m w)))"

abbreviation terminal_at :: "doc_ref \<Rightarrow> world \<Rightarrow> bool" where
  "terminal_at r \<equiv> (\<lambda>w. terminal (status_of w r))"

subsection \<open>What the try block of a handler asks of the store\<close>

text \<open>
  The Dues upsert of an event: the reference and the data that the handler of the event
  passes to \<^verbatim>\<open>set\<close>, or the error thrown in the try block before that. The upsert
  fails when that error is thrown, when the client refuses the data, or when the store
  fails on this write. Likewise the donation append of an intent-succeeded event, which
  is asked for only when the payment type is donation.
\<close>

definition intent_dues_upsert ::
  "env \<Rightarrow> (jsval \<Rightarrow> js_error + fields) \<Rightarrow> jsval \<Rightarrow> js_error + (doc_ref \<times> fields)" where
  "intent_dues_upsert e literal paymentIntent =
     and_then (get_prop paymentIntent ''metadata'') (\<lambda>metadata.
     and_then (destructure ''paymentIntent.metadata'' metadata ''memberId'') (\<lambda>memberId.
     and_then (destructure ''paymentIntent.metadata'' metadata ''organizationId'') (\<lambda>organizationId.
     and_then (destructure ''paymentIntent.metadata'' metadata ''memberName'') (\<lambda>memberName.
     and_then (dues_ref e organizationId memberId) (\<lambda>r.
     and_then (literal memberName) (\<lambda>fs. Inr (r, fs)))))))"

definition dues_upsert_of :: "env \<Rightarrow> string \<Rightarrow> jsval \<Rightarrow> js_error + (doc_ref \<times> fields)" where
  "dues_upsert_of e ty payload =
     (if ty = ''payment_intent.succeeded'' then
        intent_dues_upsert e (paid_dues_fields e payload) payload
      else if ty = ''payment_intent.payment_failed'' then
        intent_dues_upsert e (failed_dues_fields e payload) payload
      else
        and_then (get_prop payload ''payment_intent'') (\<lambda>intentId.
        and_then (paymentIntents_retrieve e intentId)
          (intent_dues_upsert e (refunded_dues_fields e payload))))"

definition dues_upsert_fails :: "env \<Rightarrow> string \<Rightarrow> jsval \<Rightarrow> bool" where
  "dues_upsert_fails e ty payload =
     (case dues_upsert_of e ty payload of
        Inl err \<Rightarrow> True
      | Inr (r, fs) \<Rightarrow> \<not> storable_fields fs \<or> store_fault e (OpSet r fs))"

definition donation_append_of :: "env \<Rightarrow> jsval \<Rightarrow> js_error + (path \<times> fields) option" where
  "donation_append_of e paymentIntent =
     and_then (get_prop paymentIntent ''metadata'') (\<lambda>metadata.
     and_then (destructure ''paymentIntent.metadata'' metadata ''memberId'') (\<lambda>memberId.
     and_then (destructure ''paymentIntent.metadata'' metadata ''organizationId'') (\<lambda>organizationId.
     and_then (destructure ''paymentIntent.metadata'' metadata ''paymentType'') (\<lambda>paymentType.
     and_then (destructure ''paymentIntent.metadata'' metadata ''memberName'') (\<lambda>memberName.
       if paymentType = JStr ''donation'' then
         and_then (member_collection e organizationId memberId ''donations'') (\<lambda>c.
         and_then (donation_fields e paymentIntent memberName) (\<lambda>fs. Inr (Some (c, fs))))
       else Inr None)))))"

definition donation_append_fails :: "env \<Rightarrow> jsval \<Rightarrow> bool" where
  "donation_append_fails e paymentIntent =
     (case donation_append_of e paymentIntent of
        Inl err \<Rightarrow> True
      | Inr None \<Rightarrow> False
      | Inr (Some (c, fs)) \<Rightarrow> \<not> storable_fields fs \<or> store_fault e (OpAdd c fs))"

definition try_block_fails :: "env \<Rightarrow> string \<Rightarrow> jsval \<Rightarrow> bool" where
  "try_block_fails e ty payload =
     (dues_upsert_fails e ty payload
      \<or> (ty = ''payment_intent.succeeded'' \<and> donation_append_fails e payload))"

text \<open>The line each handler logs from its \<^verbatim>\<open>catch\<close> block.\<close>

definition handler_error_line :: "string \<Rightarrow> string" where
  "handler_error_line ty =
     (if ty = ''payment_intent.succeeded'' then ''Error updating payment success:''
      else if ty = ''payment_intent.payment_failed'' then ''Error updating payment failure:''
      else ''Error updating refund:'')"

subsection \<open>The metadata of a created payment intent\<close>

text \<open>The provider calls made between two worlds.\<close>

definition new_calls :: "world \<Rightarrow> world \<Rightarrow> provider_call list" where
  "new_calls w w' = drop (length (provider_calls w)) (provider_calls w')"

definition join_keys :: "string list" where
  "join_keys = [''memberId'', ''organizationId'', ''paymentType'', ''memberName'']"

definition body_field :: "request \<Rightarrow> string \<Rightarrow> jsval" where
  "body_field req k = (case get_prop (body req) k of Inr v \<Rightarrow> v | Inl err \<Rightarrow> JUndefined)"

text \<open>
  The member document of a request in a world, and the member name each issuing route
  attaches: the name field of that document; without a store client the demo member's
  name, respectively, without a document, the submitter's name.
\<close>

definition lookup_member :: "env \<Rightarrow> world \<Rightarrow> jsval \<Rightarrow> jsval \<Rightarrow> doc option" where
  "lookup_member e w organizationId memberId =
     (case record_ref e organizationId memberId ''members'' memberId of
        Inr r \<Rightarrow> lookup_doc w r
      | Inl err \<Rightarrow> None)"

definition request_member :: "env \<Rightarrow> world \<Rightarrow> request \<Rightarrow> doc option" where
  "request_member e w req =
     lookup_member e w (body_field req ''organizationId'') (body_field req ''memberId'')"

definition issuance_member_name :: "env \<Rightarrow> world \<Rightarrow> request \<Rightarrow> jsval" where
  "issuance_member_name e w req =
     (if db_configured e then
        (case request_member e w req of Some d \<Rightarrow> doc_field d ''name'' | None \<Rightarrow> JUndefined)
      else JStr ''Demo Member'')"

definition expense_member_name :: "env \<Rightarrow> world \<Rightarrow> request \<Rightarrow> jsval" where
  "expense_member_name e w req =
     (case (if db_configured e then request_member e w req else None) of
        Some d \<Rightarrow> doc_field d ''name''
      | None \<Rightarrow> body_field req ''submitterName'')"

text \<open>
  The arguments of a payment-intent creation join back to the request that caused it:
  the metadata object has the four join keys, its memberId and organizationId are those
  of the request body, its paymentType is the one of the route, and its memberName is
  the given name.
\<close>

definition joins_back :: "request \<Rightarrow> string \<Rightarrow> jsval \<Rightarrow> jsval \<Rightarrow> bool" where
  "joins_back req paymentType name args =
     (case get_prop args ''metadata'' of
        Inr (JObj md) \<Rightarrow>
          set join_keys \<subseteq> set (map fst md)
          \<and> map_of md ''memberId'' = Some (body_field req ''memberId'')
          \<and> map_of md ''organizationId'' = Some (body_field req ''organizationId'')
          \<and> map_of md ''paymentType'' = Some (JStr paymentType)
          \<and> map_of md ''memberName'' = Some name
      | _ \<Rightarrow> False)"

text \<open>
  Metadata values are strings at the provider. A value that is a non-empty string is
  carried by the provider-side object as it is; an undefined value is left out of the
  request, so that the object created has no such key.
\<close>

fun carried :: "jsval \<Rightarrow> bool" where
  "carried (JStr s) = (s \<noteq> [])"
| "carried v = False"

definition join_values_present :: "jsval \<Rightarrow> bool" where
  "join_values_present args =
     (case get_prop args ''metadata'' of
        Inr (JObj md) \<Rightarrow>
          list_all (\<lambda>k. case map_of md k of Some v \<Rightarrow> carried v | None \<Rightarrow> False) join_keys
      | _ \<Rightarrow> False)"

definition intents_join_back ::
  "env \<Rightarrow> request \<Rightarrow> string \<Rightarrow> jsval \<Rightarrow> world \<Rightarrow> world \<Rightarrow> bool" where
  "intents_join_back e req paymentType name w w' =
     ((\<exists>cs. provider_calls w' = provider_calls w @ cs
         \<and> (\<forall>args. PaymentIntentsCreate args \<in> set cs \<longrightarrow> joins_back req paymentType name args))
      \<and> request_member e w' req = request_member e w req)"

subsection \<open>Creation times\<close>

definition created_time :: "doc \<Rightarrow> nat option" where
  "created_time d = (case d ''createdAt'' of Some (Timestamp t) \<Rightarrow> Some t | _ \<Rightarrow> None)"

section \<open>Example deliveries and requests\<close>

text \<open>
  The end-to-end scenario of the specification: member \<open>m1\<close> of organization \<open>o1\<close>,
  a payment intent of 15000 minor units, a store that accepts every operation, and a
  signature check that accepts the header \<open>t=1,v1=good\<close> only. Beside it, the same
  intent without a member name in its metadata, and without a latest charge.
\<close>

definition w0 :: world where
  "w0 = \<lparr>store = (\<lambda>c. []), next_id = 0, provider_calls = [], handler_calls = [], console = []\<rparr>"

definition ex_collection :: "string \<Rightarrow> path" where
  "ex_collection name = [Key ''artifacts'', Key ''o1'', Key ''users'', Key ''m1'', Key name]"

definition ex_dues :: doc_ref where
  "ex_dues = (ex_collection ''dues'', Key ''m1'')"

definition ex_metadata :: "string \<Rightarrow> fields" where
  "ex_metadata paymentType =
     [(''memberId'', JStr ''m1''), (''organizationId'', JStr ''o1''),
      (''paymentType'', JStr paymentType), (''memberName'', JStr ''Test'')]"

definition ex_intent :: "string \<Rightarrow> jsval" where
  "ex_intent paymentType =
     JObj [(''id'', JStr ''pi_1''),
           (''amount'', JNum 15000),
           (''latest_charge'', JStr ''ch_1''),
           (''description'', JStr ''Spring dues''),
           (''metadata'', JObj (ex_metadata paymentType))]"

definition ex_unnamed_metadata :: "string \<Rightarrow> fields" where
  "ex_unnamed_metadata paymentType =
     [(''memberId'', JStr ''m1''), (''organizationId'', JStr ''o1''),
      (''paymentType'', JStr paymentType)]"

definition ex_unnamed_intent :: "string \<Rightarrow> jsval" where
  "ex_unnamed_intent paymentType =
     JObj [(''id'', JStr ''pi_3''),
           (''amount'', JNum 15000),
           (''latest_charge'', JStr ''ch_3''),
           (''description'', JStr ''Spring dues''),
           (''metadata'', JObj (ex_unnamed_metadata paymentType))]"

definition ex_uncharged_intent :: jsval where
  "ex_uncharged_intent =
     JObj [(''id'', JStr ''pi_4''),
           (''amount'', JNum 15000),
           (''description'', JStr ''Spring dues''),
           (''metadata'', JObj (ex_metadata ''dues''))]"

definition ex_env :: env where
  "ex_env =
     \<lparr>db_configured = True,
      store_fault = (\<lambda>op. False),
      store_error_text = (\<lambda>f. ''Value for argument is not valid''),
      server_time = 1000,
      today = ''2024-05-01'',
      now_iso = ''2024-05-01T10:00:00.000Z'',
      now_ms = ''1714557600000'',
      stripe_secret_key = Some ''sk_live_1'',
      constructEvent = (\<lambda>payload sig.
        if sig = JStr ''t=1,v1=good'' then Inr payload
        else Inl (Error ''No signatures found matching the expected signature for payload'')),
      customers_list = (\<lambda>q. Inr []),
      customers_create = (\<lambda>a. Inr (JObj [(''id'', JStr ''cus_1'')])),
      paymentIntents_create = (\<lambda>a. Inr (JObj [(''id'', JStr ''pi_1''),
                                                 (''client_secret'', JStr ''pi_1_secret''),
                                                 (''status'', JStr ''requires_payment_method'')])),
      paymentIntents_retrieve = (\<lambda>i. if i = JStr ''pi_1'' then Inr (ex_intent ''dues'')
                                      else if i = JStr ''pi_3'' then Inr (ex_unnamed_intent ''dues'')
                                      else Inl (Error ''No such payment_intent'')),
      transfers_create = (\<lambda>a. Inr (JObj [(''id'', JStr ''tr_1'')])),
      validation_errors = (\<lambda>v b. []),
      coerce_number = (\<lambda>v. JNaN),
      coerce_string = (\<lambda>v. ''[object Object]''),
      parseFloat = (\<lambda>v. case v of JNum r \<Rightarrow> JNum r | _ \<Rightarrow> JNaN),
      js_multiply = (\<lambda>a b. case (a, b) of (JNum x, JNum y) \<Rightarrow> JNum (x * y) | _ \<Rightarrow> JNaN),
      Math_round = (\<lambda>v. case v of JNum r \<Rightarrow> JNum (of_int (round r)) | _ \<Rightarrow> JNaN)\<rparr>"

definition ex_env_add_fails :: env where
  "ex_env_add_fails =
     ex_env\<lparr>store_fault := (\<lambda>op. case op of OpAdd c fs \<Rightarrow> True | _ \<Rightarrow> False)\<rparr>"

definition ex_env_dues_fails :: env where
  "ex_env_dues_fails = ex_env\<lparr>store_fault := (\<lambda>op. case op of OpSet r fs \<Rightarrow> r = ex_dues | _ \<Rightarrow> False)\<rparr>"

definition ex_event :: "string \<Rightarrow> jsval \<Rightarrow> jsval" where
  "ex_event ty obj = JObj [(''type'', JStr ty), (''data'', JObj [(''object'', obj)])]"

definition ex_delivery :: "string \<Rightarrow> jsval \<Rightarrow> request" where
  "ex_delivery sig event =
     \<lparr>headers = [(''stripe-signature'', JStr sig)], body = event, params = []\<rparr>"

definition ex_charge :: "string \<Rightarrow> jsval" where
  "ex_charge intentId =
     JObj [(''id'', JStr ''ch_1''),
           (''payment_intent'', JStr intentId),
           (''amount_refunded'', JNum 15000),
           (''refunds'', JObj [(''data'', JArr [JObj [(''id'', JStr ''re_1'')]])])]"

definition ex_bare_intent :: jsval where
  "ex_bare_intent = JObj [(''id'', JStr ''pi_2''), (''amount'', JNum 500)]"

definition succeeded_delivery :: "jsval \<Rightarrow> request" where
  "succeeded_delivery intent = ex_delivery ''t=1,v1=good'' (ex_event ''payment_intent.succeeded'' intent)"

definition failed_delivery :: request where
  "failed_delivery =
     ex_delivery ''t=1,v1=good'' (ex_event ''payment_intent.payment_failed'' (ex_intent ''dues''))"

definition refunded_delivery :: "string \<Rightarrow> request" where
  "refunded_delivery intentId =
     ex_delivery ''t=1,v1=good'' (ex_event ''charge.refunded'' (ex_charge intentId))"

definition ex_member_world :: "fields \<Rightarrow> world" where
  "ex_member_world member =
     w0\<lparr>store := (\<lambda>c. if c = ex_collection ''members'' then [(Key ''m1'', map_of member)] else [])\<rparr>"

definition ex_intent_request :: request where
  "ex_intent_request =
     \<lparr>headers = [],
      body = JObj [(''amount'', JNum 15000), (''currency'', JStr ''usd''),
                   (''memberId'', JStr ''m1''), (''organizationId'', JStr ''o1''),
                   (''description'', JStr ''Spring dues'')],
      params = []\<rparr>"

definition ex_expense_request :: request where
  "ex_expense_request =
     \<lparr>headers = [],
      body = JObj [(''submitterName'', JStr ''Test''), (''amount'', JNum 12),
                   (''category'', JStr ''Food''), (''description'', JStr ''Pizza''),
                   (''memberId'', JStr ''m1''), (''organizationId'', JStr ''o1'')],
      params = []\<rparr>"

definition ex_reimbursement_request :: request where
  "ex_reimbursement_request =
     \<lparr>headers = [],
      body = JObj [(''amount'', JNum 12), (''memberId'', JStr ''m9''),
                   (''organizationId'', JStr ''o1''), (''description'', JStr ''Pizza''),
                   (''expenseId'', JStr ''e1'')],
      params = []\<rparr>"

text \<open>The same request for a member id with a slash in it, which names no document.\<close>

definition ex_slash_reimbursement_request :: request where
  "ex_slash_reimbursement_request =
     \<lparr>headers = [],
      body = JObj [(''amount'', JNum 12), (''memberId'', JStr ''m/9''),
                   (''organizationId'', JStr ''o1''), (''description'', JStr ''Pizza''),
                   (''expenseId'', JStr ''e1'')],
      params = []\<rparr>"

definition ex_history_request :: request where
  "ex_history_request =
     \<lparr>headers = [], body = JUndefined,
      params = [(''organizationId'', JStr ''o1''), (''memberId'', JStr ''m1'')]\<rparr>"

definition ex_history_world :: world where
  "ex_history_world =
     w0\<lparr>store := (\<lambda>c. if c = ex_collection ''payment_intents''
                       then [(AutoKey 0, map_of [(''paymentIntentId'', JStr ''pi_1''),
                                                 (''createdAt'', Timestamp 5)]),
                             (AutoKey 1, map_of [(''paymentIntentId'', JStr ''pi_2''),
                                                 (''createdAt'', Timestamp 9)])]
                       else []),
        next_id := 2\<rparr>"

definition ex_slash_history_request :: request where
  "ex_slash_history_request =
     \<lparr>headers = [], body = JUndefined,
      params = [(''organizationId'', JStr ''o1''), (''memberId'', JStr ''m/1'')]\<rparr>"

section \<open>Auxiliary facts\<close>

lemmas io_defs = io_bind_def io_lift_def io_return_def try_catch_def console_log_def
  enter_handler_def doc_set_merge_def collection_add_def and_then_def provider_def

lemmas path_defs = dues_ref_def record_ref_def member_collection_def member_doc_def doc_ref_def
  resource_path_def

lemmas handler_defs = webhook_def dispatch_def handlePaymentSuccess_def handlePaymentFailure_def
  handleRefund_def destructure_def

lemmas literal_defs = paid_dues_fields_def donation_fields_def failed_dues_fields_def
  refunded_dues_fields_def failure_reason_def first_refund_id_def js_div_def storable_fields_def
  js_or_def

lemmas attempt_defs = try_block_fails_def dues_upsert_fails_def dues_upsert_of_def
  intent_dues_upsert_def donation_append_fails_def donation_append_of_def

lemmas route_defs = respond_def validation_failed_def member_not_found_def doc_field_def
  resolve_customer_def demo_member_def require_member_def mock_expense_response_def
  key_missing_def submitter_as_member_def member_or_submitter_def doc_get_def to_cents_def
  destructure_def storable_fields_def js_or_def

lemmas ex_defs = ex_env_def ex_event_def ex_delivery_def ex_intent_def ex_charge_def
  ex_bare_intent_def ex_metadata_def ex_unnamed_metadata_def ex_unnamed_intent_def
  ex_uncharged_intent_def ex_collection_def ex_dues_def w0_def header_def event_object_def
  succeeded_delivery_def failed_delivery_def refunded_delivery_def

lemmas request_defs = ex_member_world_def ex_intent_request_def ex_expense_request_def
  ex_reimbursement_request_def ex_history_request_def ex_history_world_def

subsection \<open>Values, literals and documents\<close>

lemma get_prop_destructure:
  "get_prop v k = Inr x \<Longrightarrow> destructure s v k' = get_prop v k'"
  by (cases v) (simp_all add: destructure_def)

lemma get_prop_total:
  "get_prop v k = Inr x \<Longrightarrow> \<exists>y. get_prop v k' = Inr y"
  by (cases v) simp_all

lemma destructure_body_field:
  "destructure s (body req) k = Inr v \<Longrightarrow> body_field req k = v"
  by (auto simp add: destructure_def body_field_def split: if_splits)

lemma obj_lit_field:
  "obj_lit fs = Inr data \<Longrightarrow> map_of fs k = Some (Inr v) \<Longrightarrow> map_of data k = Some v"
proof (induction fs arbitrary: data rule: obj_lit.induct)
  case 1 then show ?case by simp
next
  case (2 k e fs) then show ?case by simp
next
  case (3 k v fs) then show ?case by (auto split: sum.splits if_splits)
qed

lemma obj_lit_terminal:
  assumes "obj_lit fs = Inr data" and "map_of fs ''status'' = Some (Inr s)" and "terminal (Some s)"
  shows "terminal (map_of data ''status'')"
  using obj_lit_field [OF assms(1,2)] assms(3) by simp

lemma map_of_upsert:
  "map_of (upsert i d xs) =
     (map_of xs)(i \<mapsto> (case map_of xs i of None \<Rightarrow> d | Some old \<Rightarrow> old ++ d))"
  by (induction xs) (auto simp: fun_eq_iff)

lemma upsert_twice: "upsert i d (upsert i d xs) = upsert i d xs"
  by (induction xs) (auto simp: map_add_def fun_eq_iff split: option.splits)

subsection \<open>Paths\<close>

lemma donations_beside_dues:
  assumes "dues_ref e org m = Inr r" and "member_collection e org m ''donations'' = Inr c"
  shows "fst r \<noteq> c"
  using assms
  by (auto simp: dues_ref_def record_ref_def member_collection_def doc_ref_def and_then_def
      split: sum.splits if_splits)

lemma member_doc_env:
  assumes "db_configured e2" and "member_doc e1 org m = Inr u"
  shows "member_doc e2 org m = Inr u"
  using assms
  by (auto simp: member_doc_def doc_ref_def resource_path_def and_then_def
      split: sum.splits if_splits jsval.splits)

lemma member_collection_env:
  assumes "db_configured e2" and "member_collection e1 org m name = Inr c"
  shows "member_collection e2 org m name = Inr c"
  using assms member_doc_env [of e2 e1 org m]
  by (auto simp: member_collection_def and_then_def split: sum.splits)

lemma dues_ref_env:
  assumes "db_configured e2" and "dues_ref e1 org m = Inr r"
  shows "dues_ref e2 org m = Inr r"
  using assms member_collection_env [of e2 e1 org m "''dues''"]
  by (auto simp: dues_ref_def record_ref_def doc_ref_def resource_path_def and_then_def
      split: sum.splits if_splits jsval.splits)

lemma members_beside:
  assumes "record_ref e org m ''members'' m = Inr r" and "member_collection e org m name = Inr c"
    and "name \<noteq> ''members''"
  shows "fst r \<noteq> c"
  using assms
  by (auto simp: record_ref_def member_collection_def doc_ref_def and_then_def
      split: sum.splits if_splits)

subsection \<open>Properties kept by a computation\<close>

lemma snd_respond: "snd (respond m w) = snd (m w)"
  by (simp add: respond_def split: prod.splits sum.splits)

lemma keeps_bind:
  assumes "keeps P m" and "\<And>x. \<exists>w. P w \<and> fst (m w) = Inr x \<Longrightarrow> keeps P (f x)"
  shows "keeps P (io_bind m f)"
  unfolding keeps_def io_bind_def
proof (intro allI impI)
  fix w assume w: "P w"
  then have 1: "P (snd (m w))" using assms(1) by (simp add: keeps_def)
  show "P (snd (case m w of (Inl e, w') \<Rightarrow> (Inl e, w') | (Inr x, w') \<Rightarrow> f x w'))"
  proof (cases "m w")
    case (Pair r w')
    show ?thesis
    proof (cases r)
      case (Inl e) with Pair 1 show ?thesis by simp
    next
      case (Inr x)
      with Pair w have "\<exists>w. P w \<and> fst (m w) = Inr x" by (metis fst_conv)
      then have "keeps P (f x)" by (rule assms(2))
      with Pair Inr 1 show ?thesis by (simp add: keeps_def)
    qed
  qed
qed

lemma keeps_try:
  assumes "keeps P m" and "\<And>err. keeps P (h err)"
  shows "keeps P (try_catch m h)"
  using assms by (auto simp: keeps_def try_catch_def split: prod.splits sum.splits)

lemma keeps_lift: "keeps P (io_lift r)"
  by (simp add: keeps_def io_lift_def)

lemma keeps_return: "keeps P (io_return x)"
  by (simp add: keeps_def io_return_def)

lemma keeps_if: "(b \<Longrightarrow> keeps P m) \<Longrightarrow> (\<not> b \<Longrightarrow> keeps P n) \<Longrightarrow> keeps P (if b then m else n)"
  by simp

lemma keeps_case_option:
  "(x = None \<Longrightarrow> keeps P m) \<Longrightarrow> (\<And>d. x = Some d \<Longrightarrow> keeps P (n d))
   \<Longrightarrow> keeps P (case x of None \<Rightarrow> m | Some d \<Rightarrow> n d)"
  by (cases x) simp_all

lemma keeps_case_sum:
  "(\<And>a. x = Inl a \<Longrightarrow> keeps P (m a)) \<Longrightarrow> (\<And>d. x = Inr d \<Longrightarrow> keeps P (n d))
   \<Longrightarrow> keeps P (case x of Inl a \<Rightarrow> m a | Inr d \<Rightarrow> n d)"
  by (cases x) simp_all

lemma keeps_case_list:
  "(x = [] \<Longrightarrow> keeps P m) \<Longrightarrow> (\<And>a as. x = a # as \<Longrightarrow> keeps P (n a as))
   \<Longrightarrow> keeps P (case x of [] \<Rightarrow> m | a # as \<Rightarrow> n a as)"
  by (cases x) simp_all

lemma keeps_let: "keeps P (f x) \<Longrightarrow> keeps P (Let x f)"
  by simp

lemmas keeps_structure = keeps_bind keeps_try keeps_lift keeps_return keeps_if keeps_case_option
  keeps_case_sum keeps_case_list keeps_let

subsection \<open>The handlers never leave the terminal states\<close>

lemma keeps_terminal_log: "keeps (terminal_at r) (console_log l)"
  by (simp add: keeps_def console_log_def status_of_def lookup_doc_def)

lemma keeps_terminal_enter: "keeps (terminal_at r) (enter_handler l)"
  by (simp add: keeps_def enter_handler_def status_of_def lookup_doc_def)

lemma keeps_terminal_provider: "keeps (terminal_at r) (provider call x)"
  by (simp add: keeps_def provider_def status_of_def lookup_doc_def)

lemma keeps_terminal_set:
  assumes "terminal (map_of fs ''status'')"
  shows "keeps (terminal_at r) (doc_set_merge e r' fs)"
  using assms
  by (auto simp: keeps_def doc_set_merge_def status_of_def lookup_doc_def map_of_upsert
      terminal_def map_add_def split: option.splits)

lemma keeps_terminal_add: "keeps (terminal_at r) (collection_add e c fs)"
  by (auto simp: keeps_def collection_add_def status_of_def lookup_doc_def terminal_def
      map_add_Some_iff split: option.splits)

lemmas keeps_terminal = keeps_structure keeps_terminal_log keeps_terminal_enter
  keeps_terminal_provider keeps_terminal_add

lemma success_keeps_terminal: "keeps (terminal_at r) (handlePaymentSuccess e p)"
  unfolding handlePaymentSuccess_def
  apply (intro keeps_terminal keeps_terminal_set)
  apply (elim exE conjE)
  apply (simp only: io_lift_def fst_conv paid_dues_fields_def)
  apply (erule obj_lit_terminal)
   apply simp
  apply (simp add: terminal_def)
  done

lemma failure_keeps_terminal: "keeps (terminal_at r) (handlePaymentFailure e p)"
  unfolding handlePaymentFailure_def
  apply (intro keeps_terminal keeps_terminal_set)
  apply (elim exE conjE)
  apply (simp only: io_lift_def fst_conv failed_dues_fields_def)
  apply (erule obj_lit_terminal)
   apply simp
  apply (simp add: terminal_def)
  done

lemma refund_keeps_terminal: "keeps (terminal_at r) (handleRefund e p)"
  unfolding handleRefund_def
  apply (intro keeps_terminal keeps_terminal_set)
  apply (elim exE conjE)
  apply (simp only: io_lift_def fst_conv refunded_dues_fields_def)
  apply (erule obj_lit_terminal)
   apply simp
  apply (simp add: terminal_def)
  done

lemma dispatch_keeps_terminal: "keeps (terminal_at r) (dispatch e event)"
  unfolding dispatch_def
  by (intro keeps_terminal success_keeps_terminal failure_keeps_terminal refund_keeps_terminal)

lemma webhook_keeps_terminal:
  assumes "terminal (status_of w r)"
  shows "terminal (status_of (snd (webhook e req w)) r)"
proof (cases "constructEvent e (body req) (header req ''stripe-signature'')")
  case (Inl err)
  with assms show ?thesis by (simp add: webhook_def status_of_def lookup_doc_def)
next
  case (Inr event)
  have "terminal (status_of (snd (dispatch e event w)) r)"
    using dispatch_keeps_terminal assms by (simp add: keeps_def)
  with Inr show ?thesis
    by (auto simp: webhook_def status_of_def lookup_doc_def split: prod.splits sum.splits)
qed

subsection \<open>What a handler leaves behind\<close>

lemma succeeded_effect:
  assumes verified: "constructEvent e (body req) (header req ''stripe-signature'') = Inr event"
    and ty: "get_prop event ''type'' = Inr (JStr ''payment_intent.succeeded'')"
    and obj: "event_object event = Inr paymentIntent"
    and meta: "get_prop paymentIntent ''metadata'' = Inr (JObj md)"
    and member: "map_of md ''memberId'' = Some m"
    and org: "map_of md ''organizationId'' = Some org"
    and name: "map_of md ''memberName'' = Some name" "storable name"
    and ref: "dues_ref e org m = Inr r"
    and dons: "member_collection e org m ''donations'' = Inr c"
    and amount: "get_prop paymentIntent ''amount'' = Inr (JNum a)"
    and pid: "get_prop paymentIntent ''id'' = Inr intentId" "storable intentId"
    and charge: "get_prop paymentIntent ''latest_charge'' = Inr chargeId" "storable chargeId"
    and descr: "get_prop paymentIntent ''description'' = Inr descr"
      "map_of md ''paymentType'' = Some (JStr ''donation'') \<longrightarrow> storable descr"
    and accepts: "\<forall>fs. \<not> store_fault e (OpSet r fs)" "\<forall>fs. \<not> store_fault e (OpAdd c fs)"
  shows "store (snd (webhook e req w)) =
      (\<lambda>p. if p = c then
              store w c @
                (if map_of md ''paymentType'' = Some (JStr ''donation'')
                 then [(AutoKey (next_id w),
                        map_of [(''campaignName'', descr),
                                (''donorName'', name),
                                (''amount'', JNum (a / 100)),
                                (''date'', JStr (today e)),
                                (''paymentIntentId'', intentId)])]
                 else [])
            else if p = fst r then
              upsert (snd r)
                (map_of [(''memberName'', name),
                         (''amount'', JNum (a / 100)),
                         (''status'', JStr ''Paid''),
                         (''dueDate'', JStr (today e)),
                         (''paidDate'', JStr (today e)),
                         (''paymentIntentId'', intentId),
                         (''stripeChargeId'', chargeId)])
                (store w (fst r))
            else store w p)"
    and "next_id (snd (webhook e req w))
      = (if map_of md ''paymentType'' = Some (JStr ''donation'') then Suc (next_id w)
         else next_id w)"
  using assms donations_beside_dues [OF ref dons]
  by (auto simp add: handler_defs io_defs literal_defs fun_eq_iff split: option.splits)

lemma success_outcome:
  assumes "get_prop p ''metadata'' = Inr (JObj md)"
  shows "fst (handlePaymentSuccess e p w) = Inr ()
    \<and> (try_block_fails e ''payment_intent.succeeded'' p \<longrightarrow>
         console (snd (handlePaymentSuccess e p w)) = console w @ [''Error updating payment success:''])
    \<and> (\<not> try_block_fails e ''payment_intent.succeeded'' p \<longrightarrow>
         (\<exists>l. console (snd (handlePaymentSuccess e p w)) = console w @ [l]
              \<and> l \<noteq> ''Error updating payment success:''))
    \<and> (dues_upsert_fails e ''payment_intent.succeeded'' p \<longrightarrow>
         store (snd (handlePaymentSuccess e p w)) = store w
       \<and> next_id (snd (handlePaymentSuccess e p w)) = next_id w)"
  using assms
  by (auto simp add: handlePaymentSuccess_def destructure_def attempt_defs io_defs
      split: sum.splits prod.splits)

lemma failure_outcome:
  assumes "get_prop p ''metadata'' = Inr (JObj md)"
  shows "fst (handlePaymentFailure e p w) = Inr ()
    \<and> (try_block_fails e ''payment_intent.payment_failed'' p \<longrightarrow>
         console (snd (handlePaymentFailure e p w)) = console w @ [''Error updating payment failure:''])
    \<and> (\<not> try_block_fails e ''payment_intent.payment_failed'' p \<longrightarrow>
         (\<exists>l. console (snd (handlePaymentFailure e p w)) = console w @ [l]
              \<and> l \<noteq> ''Error updating payment failure:''))
    \<and> (dues_upsert_fails e ''payment_intent.payment_failed'' p \<longrightarrow>
         store (snd (handlePaymentFailure e p w)) = store w
       \<and> next_id (snd (handlePaymentFailure e p w)) = next_id w)"
  using assms
  by (auto simp add: handlePaymentFailure_def destructure_def attempt_defs io_defs
      split: sum.splits prod.splits)

lemma refund_outcome:
  "fst (handleRefund e c w) = Inr ()
    \<and> (try_block_fails e ''charge.refunded'' c \<longrightarrow>
         console (snd (handleRefund e c w)) = console w @ [''Error updating refund:''])
    \<and> (\<not> try_block_fails e ''charge.refunded'' c \<longrightarrow>
         (\<exists>l. console (snd (handleRefund e c w)) = console w @ [l]
              \<and> l \<noteq> ''Error updating refund:''))
    \<and> (dues_upsert_fails e ''charge.refunded'' c \<longrightarrow>
         store (snd (handleRefund e c w)) = store w
       \<and> next_id (snd (handleRefund e c w)) = next_id w)"
  by (auto simp add: handleRefund_def attempt_defs io_defs 
      split: sum.splits prod.splits)

subsection \<open>The provider calls of the issuing routes\<close>

lemma request_member_store:
  "store w' = store w \<Longrightarrow> request_member e w' req = request_member e w req"
  by (simp add: request_member_def lookup_member_def lookup_doc_def split: sum.splits)

lemma request_member_add:
  assumes "member_collection e (body_field req ''organizationId'') (body_field req ''memberId'') name
             = Inr c"
    and "name \<noteq> ''members''"
  shows "request_member e (w\<lparr>store := (store w)(c := xs), next_id := k\<rparr>) req
           = request_member e w req"
proof (cases "record_ref e (body_field req ''organizationId'') (body_field req ''memberId'')
                ''members'' (body_field req ''memberId'')")
  case (Inl err)
  then show ?thesis by (simp add: request_member_def lookup_member_def)
next
  case (Inr r)
  from members_beside [OF Inr assms] Inr show ?thesis
    by (simp add: request_member_def lookup_member_def lookup_doc_def)
qed

lemma join_start: "intents_join_back e req t n w w"
  by (simp add: intents_join_back_def)

lemma join_back_step:
  assumes "intents_join_back e req t n wi w"
    and "store w' = store w"
    and "provider_calls w' = provider_calls w @ cs"
    and "\<And>args. PaymentIntentsCreate args \<in> set cs \<Longrightarrow> joins_back req t n args"
  shows "intents_join_back e req t n wi w'"
proof -
  from assms(1) obtain cs0 where
    cs0: "provider_calls w = provider_calls wi @ cs0"
      "\<forall>args. PaymentIntentsCreate args \<in> set cs0 \<longrightarrow> joins_back req t n args"
    and same: "request_member e w req = request_member e wi req"
    by (auto simp add: intents_join_back_def)
  have "provider_calls w' = provider_calls wi @ (cs0 @ cs)"
    using cs0(1) assms(3) by simp
  moreover have "\<forall>args. PaymentIntentsCreate args \<in> set (cs0 @ cs) \<longrightarrow> joins_back req t n args"
    using cs0(2) assms(4) by auto
  moreover have "request_member e w' req = request_member e wi req"
    using same request_member_store [OF assms(2)] by simp
  ultimately show ?thesis
    unfolding intents_join_back_def by blast
qed

lemma keeps_join_log: "keeps (intents_join_back e req t n wi) (console_log l)"
  unfolding keeps_def console_log_def
  by (auto intro: join_back_step [where cs = "[]"])

lemma keeps_join_get: "keeps (intents_join_back e req t n wi) (doc_get e r)"
  by (simp add: keeps_def doc_get_def)

lemma keeps_join_other_call:
  assumes "\<And>args. c \<noteq> PaymentIntentsCreate args"
  shows "keeps (intents_join_back e req t n wi) (provider c r)"
  unfolding keeps_def provider_def
proof (intro allI impI)
  fix w assume "intents_join_back e req t n wi w"
  then have "intents_join_back e req t n wi (w\<lparr>provider_calls := provider_calls w @ [c]\<rparr>)"
    by (rule join_back_step [where cs = "[c]"]) (use assms in auto)
  then show "intents_join_back e req t n wi (snd (r, w\<lparr>provider_calls := provider_calls w @ [c]\<rparr>))"
    by simp
qed

lemma keeps_join_create:
  "joins_back req t n args
   \<Longrightarrow> keeps (intents_join_back e req t n wi) (provider (PaymentIntentsCreate args) r)"
  unfolding keeps_def provider_def
  by (auto intro: join_back_step [where cs = "[PaymentIntentsCreate args]"])

lemma keeps_join_add:
  assumes "member_collection e (body_field req ''organizationId'') (body_field req ''memberId'') name
             = Inr c"
    and "name \<noteq> ''members''"
  shows "keeps (intents_join_back e req t n wi) (collection_add e c fs)"
  by (simp add: keeps_def collection_add_def intents_join_back_def request_member_add [OF assms])

lemma keeps_join_resolve:
  "keeps (intents_join_back e req t n wi) (resolve_customer e d m org)"
  unfolding resolve_customer_def
  by (intro keeps_structure keeps_join_other_call) simp_all

lemma keeps_join_require:
  "keeps (intents_join_back e req t n wi) (require_member e org m)"
  unfolding require_member_def
  by (intro keeps_structure keeps_join_log keeps_join_get)

lemma keeps_join_member_or:
  "keeps (intents_join_back e req t n wi) (member_or_submitter e org m s)"
  unfolding member_or_submitter_def
  by (intro keeps_structure keeps_join_log keeps_join_get)

lemma require_member_name:
  assumes "intents_join_back e req t n wi w"
    and "fst (require_member e (body_field req ''organizationId'') (body_field req ''memberId'') w)
           = Inr (Inr d)"
  shows "doc_field d ''name'' = issuance_member_name e wi req"
proof -
  from assms(1) have same: "request_member e w req = request_member e wi req"
    by (simp add: intents_join_back_def)
  show ?thesis
  proof (cases "db_configured e")
    case True
    with assms(2) have "request_member e w req = Some d"
      by (auto simp add: require_member_def request_member_def lookup_member_def lookup_doc_def
          io_bind_def io_lift_def io_return_def doc_get_def
          split: sum.splits if_splits option.splits)
    with same have "request_member e wi req = Some d" by simp
    with True show ?thesis by (simp add: issuance_member_name_def)
  next
    case False
    with assms(2) show ?thesis
      by (auto simp add: require_member_def issuance_member_name_def io_bind_def io_return_def
          console_log_def demo_member_def doc_field_def)
  qed
qed

lemma member_or_submitter_name:
  assumes "intents_join_back e req t n wi w"
    and "fst (member_or_submitter e (body_field req ''organizationId'')
               (body_field req ''memberId'') (body_field req ''submitterName'') w) = Inr d"
  shows "doc_field d ''name'' = expense_member_name e wi req"
proof -
  from assms(1) have same: "request_member e w req = request_member e wi req"
    by (simp add: intents_join_back_def)
  show ?thesis
  proof (cases "db_configured e")
    case True
    with assms(2) have
      "(request_member e w req = Some d)
       \<or> (request_member e w req = None \<and> d = submitter_as_member (body_field req ''submitterName''))"
      by (auto simp add: member_or_submitter_def request_member_def lookup_member_def lookup_doc_def
          io_bind_def io_lift_def io_return_def doc_get_def
          split: sum.splits if_splits option.splits)
    with same True show ?thesis
      by (auto simp add: expense_member_name_def submitter_as_member_def doc_field_def)
  next
    case False
    with assms(2) show ?thesis
      by (auto simp add: member_or_submitter_def expense_member_name_def io_return_def
          submitter_as_member_def doc_field_def)
  qed
qed

lemma joins_back_literal:
  assumes "obj_lit fs = Inr args"
    and "map_of fs ''metadata'' = Some (Inr (JObj md))"
    and "set join_keys \<subseteq> set (map fst md)"
    and "map_of md ''memberId'' = Some (body_field req ''memberId'')"
    and "map_of md ''organizationId'' = Some (body_field req ''organizationId'')"
    and "map_of md ''paymentType'' = Some (JStr t)"
    and "map_of md ''memberName'' = Some n"
  shows "joins_back req t n (JObj args)"
  using obj_lit_field [OF assms(1,2)] assms(3-)
  by (simp add: joins_back_def)

lemma issuance_create_keeps:
  assumes m: "\<exists>w. intents_join_back e req ''dues'' (issuance_member_name e wi req) wi w
                \<and> fst (io_lift (destructure ''req.body'' (body req) ''memberId'') w) = Inr memberId"
    and o: "\<exists>w. intents_join_back e req ''dues'' (issuance_member_name e wi req) wi w
                \<and> fst (io_lift (destructure ''req.body'' (body req) ''organizationId'') w)
                    = Inr organizationId"
    and d: "\<exists>w. intents_join_back e req ''dues'' (issuance_member_name e wi req) wi w
                \<and> fst (require_member e organizationId memberId w) = Inr found"
      "found = Inr memberData"
    and a: "\<exists>w. intents_join_back e req ''dues'' (issuance_member_name e wi req) wi w
                \<and> fst (io_lift (obj_lit fs) w) = Inr args"
    and md: "map_of fs ''metadata''
               = Some (Inr (JObj [(''memberId'', memberId),
                                  (''organizationId'', organizationId),
                                  (''paymentType'', JStr ''dues''),
                                  (''memberName'', doc_field memberData ''name'')]))"
  shows "keeps (intents_join_back e req ''dues'' (issuance_member_name e wi req) wi)
           (provider (PaymentIntentsCreate (JObj args)) r)"
proof -
  from m have m': "body_field req ''memberId'' = memberId"
    by (auto simp add: io_lift_def dest: destructure_body_field)
  from o have o': "body_field req ''organizationId'' = organizationId"
    by (auto simp add: io_lift_def dest: destructure_body_field)
  from d m' o' have n: "doc_field memberData ''name'' = issuance_member_name e wi req"
    by (auto dest: require_member_name)
  from a have lit: "obj_lit fs = Inr args"
    by (simp add: io_lift_def)
  have "joins_back req ''dues'' (issuance_member_name e wi req) (JObj args)"
    by (rule joins_back_literal [OF lit md]) (simp_all add: join_keys_def m' o' n)
  then show ?thesis by (rule keeps_join_create)
qed

lemma expense_create_keeps:
  assumes s: "\<exists>w. intents_join_back e req ''expense'' (expense_member_name e wi req) wi w
                \<and> fst (io_lift (destructure ''req.body'' (body req) ''submitterName'') w)
                    = Inr submitterName"
    and m: "\<exists>w. intents_join_back e req ''expense'' (expense_member_name e wi req) wi w
                \<and> fst (io_lift (destructure ''req.body'' (body req) ''memberId'') w) = Inr memberId"
    and o: "\<exists>w. intents_join_back e req ''expense'' (expense_member_name e wi req) wi w
                \<and> fst (io_lift (destructure ''req.body'' (body req) ''organizationId'') w)
                    = Inr organizationId"
    and d: "\<exists>w. intents_join_back e req ''expense'' (expense_member_name e wi req) wi w
                \<and> fst (member_or_submitter e organizationId memberId submitterName w)
                    = Inr memberData"
    and a: "\<exists>w. intents_join_back e req ''expense'' (expense_member_name e wi req) wi w
                \<and> fst (io_lift (obj_lit fs) w) = Inr args"
    and md: "map_of fs ''metadata''
               = Some (Inr (JObj [(''memberId'', memberId),
                                  (''organizationId'', organizationId),
                                  (''paymentType'', JStr ''expense''),
                                  (''memberName'', doc_field memberData ''name''),
                                  (''category'', category),
                                  (''expenseId'', expenseId)]))"
  shows "keeps (intents_join_back e req ''expense'' (expense_member_name e wi req) wi)
           (provider (PaymentIntentsCreate (JObj args)) r)"
proof -
  from s have s': "body_field req ''submitterName'' = submitterName"
    by (auto simp add: io_lift_def dest: destructure_body_field)
  from m have m': "body_field req ''memberId'' = memberId"
    by (auto simp add: io_lift_def dest: destructure_body_field)
  from o have o': "body_field req ''organizationId'' = organizationId"
    by (auto simp add: io_lift_def dest: destructure_body_field)
  from d s' m' o' have n: "doc_field memberData ''name'' = expense_member_name e wi req"
    by (auto dest: member_or_submitter_name)
  from a have lit: "obj_lit fs = Inr args"
    by (simp add: io_lift_def)
  have "joins_back req ''expense'' (expense_member_name e wi req) (JObj args)"
    by (rule joins_back_literal [OF lit md]) (simp_all add: join_keys_def m' o' n)
  then show ?thesis by (rule keeps_join_create)
qed

lemma record_add_keeps:
  assumes m: "\<exists>w. intents_join_back e req t n wi w
                \<and> fst (io_lift (destructure ''req.body'' (body req) ''memberId'') w) = Inr memberId"
    and o: "\<exists>w. intents_join_back e req t n wi w
                \<and> fst (io_lift (destructure ''req.body'' (body req) ''organizationId'') w)
                    = Inr organizationId"
    and c: "\<exists>w. intents_join_back e req t n wi w
                \<and> fst (io_lift (member_collection e organizationId memberId name) w) = Inr c"
    and name: "name \<noteq> ''members''"
  shows "keeps (intents_join_back e req t n wi) (collection_add e c fs)"
proof -
  from m have m': "body_field req ''memberId'' = memberId"
    by (auto simp add: io_lift_def dest: destructure_body_field)
  from o have o': "body_field req ''organizationId'' = organizationId"
    by (auto simp add: io_lift_def dest: destructure_body_field)
  from c m' o' have
    "member_collection e (body_field req ''organizationId'') (body_field req ''memberId'') name
       = Inr c"
    by (simp add: io_lift_def)
  then show ?thesis using name by (rule keeps_join_add)
qed

lemma create_payment_intent_calls:
  "keeps (intents_join_back e req ''dues'' (issuance_member_name e wi req) wi)
     (try_catch
       (if validation_errors e ValidatePaymentIntent (body req) \<noteq> [] then
          io_return (validation_failed (validation_errors e ValidatePaymentIntent (body req)))
        else
          io_bind (io_lift (destructure ''req.body'' (body req) ''amount'')) (\<lambda>amount.
          io_bind (io_lift (destructure ''req.body'' (body req) ''currency'')) (\<lambda>currency.
          io_bind (io_lift (destructure ''req.body'' (body req) ''memberId'')) (\<lambda>memberId.
          io_bind (io_lift (destructure ''req.body'' (body req) ''organizationId''))
            (\<lambda>organizationId.
          io_bind (io_lift (destructure ''req.body'' (body req) ''description'')) (\<lambda>description.
          io_bind (require_member e organizationId memberId) (\<lambda>found.
            case found of
              Inl notFound \<Rightarrow> io_return notFound
            | Inr memberData \<Rightarrow>
          io_bind (resolve_customer e memberData memberId organizationId) (\<lambda>customer.
          io_bind (io_lift (obj_lit
            [(''amount'', Inr amount),
             (''currency'', Inr currency),
             (''customer'', get_prop customer ''id''),
             (''description'', Inr description),
             (''metadata'', Inr (JObj [(''memberId'', memberId),
                                       (''organizationId'', organizationId),
                                       (''paymentType'', JStr ''dues''),
                                       (''memberName'', doc_field memberData ''name'')])),
             (''automatic_payment_methods'', Inr (JObj [(''enabled'', JBool True)]))])) (\<lambda>args.
          io_bind (provider (PaymentIntentsCreate (JObj args)) (paymentIntents_create e (JObj args)))
            (\<lambda>paymentIntent.
          io_bind
            (if db_configured e then
               io_bind (io_lift (member_collection e organizationId memberId ''payment_intents''))
                 (\<lambda>intents.
               io_bind (io_lift (obj_lit
                 [(''paymentIntentId'', get_prop paymentIntent ''id''),
                  (''amount'', Inr amount),
                  (''currency'', Inr currency),
                  (''status'', get_prop paymentIntent ''status''),
                  (''description'', Inr description),
                  (''createdAt'', Inr (Timestamp (server_time e))),
                  (''memberId'', Inr memberId),
                  (''memberName'', Inr (doc_field memberData ''name''))])) (\<lambda>record.
               collection_add e intents record))
             else io_return ()) (\<lambda>_.
          io_bind (io_lift (obj_lit
            [(''clientSecret'', get_prop paymentIntent ''client_secret''),
             (''paymentIntentId'', get_prop paymentIntent ''id'')])) (\<lambda>out.
          io_return (200, Json (JObj out))))))))))))))
       (\<lambda>error.
          io_bind (console_log ''Error creating payment intent:'') (\<lambda>_.
          io_return (500, Json (JObj [(''error'', JStr ''Failed to create payment intent''),
                                      (''message'', JStr (message error))])))))"
  apply (intro keeps_structure keeps_join_log keeps_join_require keeps_join_resolve)
   apply (rule issuance_create_keeps, assumption+, simp)
  apply (rule record_add_keeps, assumption+, simp)
  done

lemma submit_expense_calls:
  "keeps (intents_join_back e req ''expense'' (expense_member_name e wi req) wi)
     (try_catch
       (if validation_errors e ValidateExpenseSubmit (body req) \<noteq> [] then
          io_return (validation_failed (validation_errors e ValidateExpenseSubmit (body req)))
        else
          io_bind (io_lift (destructure ''req.body'' (body req) ''submitterName''))
            (\<lambda>submitterName.
          io_bind (io_lift (destructure ''req.body'' (body req) ''amount'')) (\<lambda>amount.
          io_bind (io_lift (destructure ''req.body'' (body req) ''category'')) (\<lambda>category.
          io_bind (io_lift (destructure ''req.body'' (body req) ''description'')) (\<lambda>description.
          io_bind (io_lift (destructure ''req.body'' (body req) ''memberId'')) (\<lambda>memberId.
          io_bind (io_lift (destructure ''req.body'' (body req) ''organizationId''))
            (\<lambda>organizationId.
          io_bind (io_lift (destructure ''req.body'' (body req) ''receiptUrl'')) (\<lambda>receiptUrl.
          let expenseData =
                [(''submitterName'', submitterName),
                 (''amount'', parseFloat e amount),
                 (''category'', category),
                 (''description'', description),
                 (''date'', JStr (today e)),
                 (''status'', JStr ''Pending''),
                 (''receiptUrl'', js_or receiptUrl (JStr [])),
                 (''submittedAt'', JStr (now_iso e)),
                 (''memberId'', memberId),
                 (''organizationId'', organizationId)]
          in
          io_bind
            (if db_configured e then
               io_bind (io_lift (member_collection e organizationId memberId ''expenses''))
                 (\<lambda>expenses.
               collection_add e expenses expenseData)
             else io_return ()) (\<lambda>_.
          io_bind (member_or_submitter e organizationId memberId submitterName) (\<lambda>memberData.
          if key_missing e \<or> stripe_secret_key e = Some ''sk_test_your_stripe_secret_key_here'' then
            io_bind (console_log ''Running in demo mode - returning mock payment intent for expense'')
              (\<lambda>_.
            io_return (mock_expense_response e
              ''Expense submitted successfully! (Demo mode - no payment required)''))
          else if key_missing e then
            io_bind (console_log ''Stripe not properly configured - returning demo response'') (\<lambda>_.
            io_return (mock_expense_response e
              ''Expense submitted successfully! (Demo mode - no payment required)''))
          else
            try_catch
              (io_bind (resolve_customer e memberData memberId organizationId) (\<lambda>customer.
               io_bind (io_lift (obj_lit
                 [(''amount'', Inr (to_cents e (parseFloat e amount))),
                  (''currency'', Inr (JStr ''usd'')),
                  (''customer'', get_prop customer ''id''),
                  (''description'', Inr (JStr (''Expense: '' @ toString e description))),
                  (''metadata'', Inr (JObj [(''memberId'', memberId),
                                            (''organizationId'', organizationId),
                                            (''paymentType'', JStr ''expense''),
                                            (''memberName'', doc_field memberData ''name''),
                                            (''category'', category),
                                            (''expenseId'', JStr (now_ms e))])),
                  (''automatic_payment_methods'', Inr (JObj [(''enabled'', JBool True)]))]))
                 (\<lambda>args.
               io_bind (provider (PaymentIntentsCreate (JObj args))
                          (paymentIntents_create e (JObj args))) (\<lambda>paymentIntent.
               io_bind (io_lift (obj_lit
                 [(''success'', Inr (JBool True)),
                  (''expenseId'', Inr (JStr (now_ms e))),
                  (''paymentIntentId'', get_prop paymentIntent ''id''),
                  (''clientSecret'', get_prop paymentIntent ''client_secret''),
                  (''message'', Inr (JStr
                     ''Expense submitted successfully. Payment required to complete submission.''))]))
                 (\<lambda>out.
               io_return (200, Json (JObj out)))))))
              (\<lambda>stripeError.
                 io_bind (console_log ''Stripe error:'') (\<lambda>_.
                 io_return (mock_expense_response e
                   ''Expense submitted successfully! (Demo mode - Stripe error handled)'')))))))))))))
       (\<lambda>error.
          io_bind (console_log ''Error submitting expense:'') (\<lambda>_.
          io_return (500, Json (JObj [(''error'', JStr ''Failed to submit expense''),
                                      (''message'', JStr (message error))])))))"
  apply (intro keeps_structure keeps_join_log keeps_join_member_or keeps_join_resolve)
   apply (rule record_add_keeps, assumption+, simp)
  apply (rule expense_create_keeps, assumption+, simp)
  done

lemma new_calls_join_back:
  assumes "intents_join_back e req t n w w'"
    and "PaymentIntentsCreate args \<in> set (new_calls w w')"
  shows "joins_back req t n args"
  using assms by (auto simp add: intents_join_back_def new_calls_def)

lemma joins_back_present:
  assumes "joins_back req t n args"
    and "carried (body_field req ''memberId'')" and "carried (body_field req ''organizationId'')"
    and "carried n" and "t \<noteq> []"
  shows "join_values_present args"
  using assms
  by (auto simp add: joins_back_def join_values_present_def join_keys_def
      split: sum.splits jsval.splits)

subsection \<open>The ordered query\<close>

lemma doc_field_with_id:
  "d f \<noteq> None \<Longrightarrow> doc_field (with_id (i, d)) f = doc_field d f"
  by (auto simp add: doc_field_def with_id_def map_add_def split: option.splits)

lemma field_key_with_id:
  "d f \<noteq> None \<Longrightarrow> field_key f (with_id (i, d)) = field_key f d"
  by (simp add: field_key_def doc_field_with_id)

lemma set_order_by_desc:
  "set (order_by_desc f ds) = {x \<in> set ds. snd x f \<noteq> None}"
  by (auto simp add: order_by_desc_def)

lemma length_order_by_desc:
  "length (order_by_desc f ds) = length (filter (\<lambda>x. snd x f \<noteq> None) ds)"
  by (simp add: order_by_desc_def case_prod_unfold)

lemma order_by_desc_sorted:
  "sorted_wrt (\<lambda>a b. field_key f (with_id b) \<le> field_key f (with_id a)) (order_by_desc f ds)"
proof -
  let ?k = "\<lambda>(i, d). field_key f d"
  let ?xs = "sort_key ?k (filter (\<lambda>(i, d). d f \<noteq> None) ds)"
  have "sorted (map ?k ?xs)" by (rule sorted_sort_key)
  then have "sorted_wrt (\<lambda>a b. ?k a \<le> ?k b) ?xs"
    by (simp add: sorted_map)
  then have "sorted_wrt (\<lambda>a b. ?k b \<le> ?k a) (rev ?xs)"
    by (simp add: sorted_wrt_rev)
  moreover have "\<forall>x \<in> set (rev ?xs). snd x f \<noteq> None"
    by auto
  ultimately have "sorted_wrt (\<lambda>a b. field_key f (with_id b) \<le> field_key f (with_id a)) (rev ?xs)"
    by (rule_tac sorted_wrt_mono_rel [of _ "\<lambda>a b. ?k b \<le> ?k a"])
       (auto simp add: field_key_with_id)
  then show ?thesis by (simp add: order_by_desc_def)
qed

lemma key_time_le:
  assumes "field_key ''createdAt'' b \<le> field_key ''createdAt'' a"
    and "created_time a = Some s" and "created_time b = Some t"
  shows "t \<le> s"
  using assms
  by (auto simp add: field_key_def doc_field_def created_time_def less_eq_prod_def
      split: option.splits jsval.splits)

section \<open>Properties of Event Reconciliation\<close>

text \<open>
  C1, as the code has it. A verified intent-succeeded event whose metadata names the
  member and the organization by document ids and carries a member name, whose payload
  has an intent id and a latest charge, and whose writes the store accepts: the endpoint
  acknowledges, the member's Dues document is merged with amount = payload amount / 100,
  status Paid, paidDate = the processing date, the intent id and the charge id, its
  other fields kept; and the member's donations gain one record exactly when the
  paymentType is donation, and nothing otherwise.
\<close>

theorem succeeded_event_upserts_paid_dues:
  assumes verified: "constructEvent e (body req) (header req ''stripe-signature'') = Inr event"
    and ty: "get_prop event ''type'' = Inr (JStr ''payment_intent.succeeded'')"
    and obj: "event_object event = Inr paymentIntent"
    and meta: "get_prop paymentIntent ''metadata'' = Inr (JObj md)"
    and member: "map_of md ''memberId'' = Some m"
    and org: "map_of md ''organizationId'' = Some org"
    and name: "map_of md ''memberName'' = Some name" "storable name"
    and ref: "dues_ref e org m = Inr r"
    and dons: "member_collection e org m ''donations'' = Inr c"
    and amount: "get_prop paymentIntent ''amount'' = Inr (JNum a)"
    and pid: "get_prop paymentIntent ''id'' = Inr intentId" "storable intentId"
    and charge: "get_prop paymentIntent ''latest_charge'' = Inr chargeId" "storable chargeId"
    and descr: "get_prop paymentIntent ''description'' = Inr descr"
      "map_of md ''paymentType'' = Some (JStr ''donation'') \<longrightarrow> storable descr"
    and accepts: "\<forall>fs. \<not> store_fault e (OpSet r fs)" "\<forall>fs. \<not> store_fault e (OpAdd c fs)"
  shows "fst (webhook e req w) = received \<and>
    (\<exists>d. lookup_doc (snd (webhook e req w)) r = Some d
       \<and> d ''amount'' = Some (JNum (a / 100))
       \<and> d ''status'' = Some (JStr ''Paid'')
       \<and> d ''paidDate'' = Some (JStr (today e))
       \<and> d ''paymentIntentId'' = Some intentId
       \<and> d ''stripeChargeId'' = Some chargeId
       \<and> (\<forall>k. k \<notin> set [''memberName'', ''amount'', ''status'', ''dueDate'', ''paidDate'',
                          ''paymentIntentId'', ''stripeChargeId''] \<longrightarrow>
              d k = (case lookup_doc w r of None \<Rightarrow> None | Some old \<Rightarrow> old k)))
    \<and> store (snd (webhook e req w)) c =
          store w c @
            (if map_of md ''paymentType'' = Some (JStr ''donation'')
             then [(AutoKey (next_id w),
                    map_of [(''campaignName'', descr),
                            (''donorName'', name),
                            (''amount'', JNum (a / 100)),
                            (''date'', JStr (today e)),
                            (''paymentIntentId'', intentId)])]
             else [])"
  using assms donations_beside_dues [OF ref dons]
  by (simp add: handler_defs io_defs literal_defs lookup_doc_def
      map_of_upsert map_add_def split: option.splits)

theorem succeeded_event_upserts_paid_dues_witness:
  "fst (webhook ex_env (succeeded_delivery (ex_intent ''dues'')) w0) = received \<and>
   (\<exists>d. lookup_doc (snd (webhook ex_env (succeeded_delivery (ex_intent ''dues'')) w0)) ex_dues = Some d
      \<and> d ''amount'' = Some (JNum 150)
      \<and> d ''status'' = Some (JStr ''Paid''))
   \<and> store (snd (webhook ex_env (succeeded_delivery (ex_intent ''dues'')) w0))
        (ex_collection ''donations'') = []"
  using succeeded_event_upserts_paid_dues
    [of ex_env "succeeded_delivery (ex_intent ''dues'')"
      "ex_event ''payment_intent.succeeded'' (ex_intent ''dues'')" "ex_intent ''dues''"
      "ex_metadata ''dues''" "JStr ''m1''" "JStr ''o1''" "JStr ''Test''" ex_dues
      "ex_collection ''donations''" 15000 "JStr ''pi_1''" "JStr ''ch_1''" "JStr ''Spring dues''" w0]
  by (auto simp add: ex_defs path_defs and_then_def)

text \<open>
  The claim C1 as stated fails for events that carry metadata with memberId and
  organizationId: when the metadata has no memberName, or the payload no latest charge,
  the data passed to \<^verbatim>\<open>set\<close> has an undefined value, the store client refuses it,
  and the handler logs the error and writes no Dues record.
\<close>

theorem unnamed_member_payment_is_not_recorded:
  "fst (webhook ex_env (succeeded_delivery (ex_unnamed_intent ''dues'')) w0) = received
   \<and> store (snd (webhook ex_env (succeeded_delivery (ex_unnamed_intent ''dues'')) w0)) = store w0
   \<and> lookup_doc (snd (webhook ex_env (succeeded_delivery (ex_unnamed_intent ''dues'')) w0)) ex_dues = None
   \<and> console (snd (webhook ex_env (succeeded_delivery (ex_unnamed_intent ''dues'')) w0))
       = [''Error updating payment success:'']
   \<and> fst (webhook ex_env (succeeded_delivery ex_uncharged_intent) w0) = received
   \<and> lookup_doc (snd (webhook ex_env (succeeded_delivery ex_uncharged_intent) w0)) ex_dues = None
   \<and> console (snd (webhook ex_env (succeeded_delivery ex_uncharged_intent) w0))
       = [''Error updating payment success:'']"
  by (simp add: ex_defs handler_defs io_defs literal_defs path_defs lookup_doc_def received_def)

text \<open>
  C2. The signature check comes first: when it fails the endpoint answers 400, no
  reconciliation handler is entered, and neither the Record Store nor the provider is
  touched.
\<close>

theorem failed_verification_rejects_without_effect:
  assumes "constructEvent e (body req) (header req ''stripe-signature'') = Inl err"
  shows "fst (webhook e req w) = (400, Text (''Webhook Error: '' @ message err))
     \<and> handler_calls (snd (webhook e req w)) = handler_calls w
     \<and> store (snd (webhook e req w)) = store w
     \<and> next_id (snd (webhook e req w)) = next_id w
     \<and> provider_calls (snd (webhook e req w)) = provider_calls w"
  using assms by (simp add: webhook_def)

theorem failed_verification_rejects_without_effect_witness:
  "fst (webhook ex_env
          (ex_delivery ''t=1,v1=forged'' (ex_event ''payment_intent.succeeded'' (ex_intent ''dues'')))
          w0)
     = (400, Text ''Webhook Error: No signatures found matching the expected signature for payload'')
   \<and> handler_calls (snd (webhook ex_env
          (ex_delivery ''t=1,v1=forged'' (ex_event ''payment_intent.succeeded'' (ex_intent ''dues'')))
          w0)) = []
   \<and> store (snd (webhook ex_env
          (ex_delivery ''t=1,v1=forged'' (ex_event ''payment_intent.succeeded'' (ex_intent ''dues'')))
          w0)) = (\<lambda>c. [])"
  using failed_verification_rejects_without_effect
    [of ex_env
      "ex_delivery ''t=1,v1=forged'' (ex_event ''payment_intent.succeeded'' (ex_intent ''dues''))"
      "Error ''No signatures found matching the expected signature for payload''" w0]
  by (simp add: ex_defs)

text \<open>
  C3, as the code has it. The same intent-succeeded event delivered twice, both
  deliveries processed on the same date, for an event that names the member and the
  organization by document ids, carries a member name, an intent id and a latest charge,
  and whose writes the store accepts: the second delivery leaves the Dues document, and
  every collection but the member's donations, as the first one left them; and when the
  paymentType is donation the donations gain two records of the same content under two
  generated ids.
\<close>

theorem redelivery_keeps_dues_and_duplicates_donation:
  assumes first: "constructEvent e1 (body req) (header req ''stripe-signature'') = Inr event"
    and second: "constructEvent e2 (body req) (header req ''stripe-signature'') = Inr event"
    and date: "today e2 = today e1"
    and ty: "get_prop event ''type'' = Inr (JStr ''payment_intent.succeeded'')"
    and obj: "event_object event = Inr paymentIntent"
    and meta: "get_prop paymentIntent ''metadata'' = Inr (JObj md)"
    and member: "map_of md ''memberId'' = Some m"
    and org: "map_of md ''organizationId'' = Some org"
    and name: "map_of md ''memberName'' = Some name" "storable name"
    and ref: "dues_ref e1 org m = Inr r" "db_configured e2"
    and dons: "member_collection e1 org m ''donations'' = Inr c"
    and amount: "get_prop paymentIntent ''amount'' = Inr (JNum a)"
    and pid: "get_prop paymentIntent ''id'' = Inr intentId" "storable intentId"
    and charge: "get_prop paymentIntent ''latest_charge'' = Inr chargeId" "storable chargeId"
    and descr: "get_prop paymentIntent ''description'' = Inr descr"
      "map_of md ''paymentType'' = Some (JStr ''donation'') \<longrightarrow> storable descr"
    and accepts: "\<forall>fs. \<not> store_fault e1 (OpSet r fs)" "\<forall>fs. \<not> store_fault e1 (OpAdd c fs)"
      "\<forall>fs. \<not> store_fault e2 (OpSet r fs)" "\<forall>fs. \<not> store_fault e2 (OpAdd c fs)"
  shows "lookup_doc (snd (webhook e2 req (snd (webhook e1 req w)))) r
           = lookup_doc (snd (webhook e1 req w)) r
    \<and> (\<forall>p. p \<noteq> c \<longrightarrow> store (snd (webhook e2 req (snd (webhook e1 req w)))) p
                       = store (snd (webhook e1 req w)) p)
    \<and> store (snd (webhook e2 req (snd (webhook e1 req w)))) c =
          store w c @
            (if map_of md ''paymentType'' = Some (JStr ''donation'')
             then [(AutoKey (next_id w),
                    map_of [(''campaignName'', descr),
                            (''donorName'', name),
                            (''amount'', JNum (a / 100)),
                            (''date'', JStr (today e1)),
                            (''paymentIntentId'', intentId)]),
                   (AutoKey (Suc (next_id w)),
                    map_of [(''campaignName'', descr),
                            (''donorName'', name),
                            (''amount'', JNum (a / 100)),
                            (''date'', JStr (today e1)),
                            (''paymentIntentId'', intentId)])]
             else [])"
proof -
  let ?w1 = "snd (webhook e1 req w)"
  have ref2: "dues_ref e2 org m = Inr r"
    by (rule dues_ref_env [OF ref(2,1)])
  have dons2: "member_collection e2 org m ''donations'' = Inr c"
    by (rule member_collection_env [OF ref(2) dons])
  have apart: "fst r \<noteq> c"
    by (rule donations_beside_dues [OF ref(1) dons])
  note one = succeeded_effect [OF first ty obj meta member org name ref(1) dons amount pid charge
      descr accepts(1,2), of w]
  note two = succeeded_effect [OF second ty obj meta member org name ref2 dons2 amount pid charge
      descr accepts(3,4), of ?w1]
  show ?thesis
    using apart date
    by (simp add: two(1) one lookup_doc_def upsert_twice)
qed

theorem redelivery_keeps_dues_and_duplicates_donation_witness:
  "lookup_doc (snd (webhook ex_env (succeeded_delivery (ex_intent ''donation''))
                      (snd (webhook ex_env (succeeded_delivery (ex_intent ''donation'')) w0)))) ex_dues
     = lookup_doc (snd (webhook ex_env (succeeded_delivery (ex_intent ''donation'')) w0)) ex_dues
   \<and> (\<exists>d. store (snd (webhook ex_env (succeeded_delivery (ex_intent ''donation''))
                       (snd (webhook ex_env (succeeded_delivery (ex_intent ''donation'')) w0))))
             (ex_collection ''donations'')
           = [(AutoKey 0, d), (AutoKey 1, d)])"
  using redelivery_keeps_dues_and_duplicates_donation
    [of ex_env "succeeded_delivery (ex_intent ''donation'')"
      "ex_event ''payment_intent.succeeded'' (ex_intent ''donation'')" ex_env
      "ex_intent ''donation''" "ex_metadata ''donation''" "JStr ''m1''" "JStr ''o1''"
      "JStr ''Test''" ex_dues "ex_collection ''donations''"
      15000 "JStr ''pi_1''" "JStr ''ch_1''" "JStr ''Spring dues''" w0]
  by (simp add: ex_defs path_defs and_then_def)

text \<open>
  The claim C3 as stated fails where it says that a second Donation record is appended
  whenever the paymentType is donation: for a donation event whose metadata has no
  memberName both deliveries are refused by the store client, and the member has no
  Donation record at all after the two deliveries.
\<close>

theorem unnamed_donation_is_never_appended:
  "get_prop (JObj (ex_unnamed_metadata ''donation'')) ''paymentType'' = Inr (JStr ''donation'')
   \<and> store (snd (webhook ex_env (succeeded_delivery (ex_unnamed_intent ''donation''))
                   (snd (webhook ex_env (succeeded_delivery (ex_unnamed_intent ''donation'')) w0))))
        (ex_collection ''donations'') = []
   \<and> console (snd (webhook ex_env (succeeded_delivery (ex_unnamed_intent ''donation''))
                     (snd (webhook ex_env (succeeded_delivery (ex_unnamed_intent ''donation'')) w0))))
       = [''Error updating payment success:'', ''Error updating payment success:'']"
  by (simp add: ex_defs handler_defs io_defs literal_defs path_defs)

text \<open>
  C4, as the code has it. Over every sequence of webhook deliveries, a Dues document
  whose status is Paid, Failed or Refunded still has a status among Paid, Failed and
  Refunded afterwards: the document is never removed and its status never leaves the
  three terminal states.
\<close>

theorem terminal_status_stays_terminal:
  "terminal (status_of w r) \<Longrightarrow> terminal (status_of (run_events evs w) r)"
proof (induction evs arbitrary: w)
  case Nil
  then show ?case by simp
next
  case (Cons ev evs)
  obtain e req where ev: "ev = (e, req)" by (cases ev)
  from Cons.prems have "terminal (status_of (snd (webhook e req w)) r)"
    by (rule webhook_keeps_terminal)
  then show ?case using Cons.IH ev by simp
qed

theorem terminal_status_stays_terminal_witness:
  "terminal (status_of (run_events [(ex_env, succeeded_delivery (ex_intent ''dues''))] w0) ex_dues)
   \<and> terminal (status_of
        (run_events [(ex_env, refunded_delivery ''pi_1''), (ex_env, failed_delivery)]
           (run_events [(ex_env, succeeded_delivery (ex_intent ''dues''))] w0))
        ex_dues)"
proof -
  have h: "terminal (status_of (run_events [(ex_env, succeeded_delivery (ex_intent ''dues''))] w0)
                       ex_dues)"
    by (simp add: ex_defs handler_defs io_defs literal_defs path_defs status_of_def lookup_doc_def
        terminal_def)
  from h terminal_status_stays_terminal
      [OF h, of "[(ex_env, refunded_delivery ''pi_1''), (ex_env, failed_delivery)]"]
  show ?thesis by blast
qed

text \<open>
  The claim C4 as stated fails: an intent-failed event delivered after the Dues record
  is Paid moves it to Failed.
\<close>

theorem failed_event_overwrites_paid:
  "status_of (run_events [(ex_env, succeeded_delivery (ex_intent ''dues''))] w0) ex_dues
     = Some (JStr ''Paid'')
   \<and> status_of (run_events [(ex_env, succeeded_delivery (ex_intent ''dues'')),
                            (ex_env, failed_delivery)] w0) ex_dues
     = Some (JStr ''Failed'')"
  by (simp add: ex_defs handler_defs io_defs literal_defs path_defs status_of_def lookup_doc_def)

text \<open>
  C5, as the code has it. For a verified event of one of the three handled types (with a
  metadata object in the payload of the two payment-intent types) the endpoint always
  acknowledges. Whenever something fails inside the handler's try block, the handler
  logs its error line, and otherwise it logs its success line. When the failure is in
  the Dues upsert of this event (an error on the way to the write, data that the client
  refuses, or the store failing on this write), the Record Store is unchanged.
\<close>

theorem handler_failure_is_swallowed:
  assumes verified: "constructEvent e (body req) (header req ''stripe-signature'') = Inr event"
    and ty: "get_prop event ''type'' = Inr (JStr ty)"
    and handled: "ty \<in> set [''payment_intent.succeeded'', ''payment_intent.payment_failed'',
                            ''charge.refunded'']"
    and obj: "event_object event = Inr payload"
    and meta: "ty \<noteq> ''charge.refunded'' \<longrightarrow> (\<exists>md. get_prop payload ''metadata'' = Inr (JObj md))"
  shows "fst (webhook e req w) = received
    \<and> (try_block_fails e ty payload \<longrightarrow>
         console (snd (webhook e req w)) = console w @ [handler_error_line ty])
    \<and> (\<not> try_block_fails e ty payload \<longrightarrow>
         (\<exists>l. console (snd (webhook e req w)) = console w @ [l] \<and> l \<noteq> handler_error_line ty))
    \<and> (dues_upsert_fails e ty payload \<longrightarrow>
         store (snd (webhook e req w)) = store w
       \<and> next_id (snd (webhook e req w)) = next_id w)"
proof -
  consider (s) "ty = ''payment_intent.succeeded''" | (f) "ty = ''payment_intent.payment_failed''"
    | (r) "ty = ''charge.refunded''"
    using handled by auto
  then show ?thesis
  proof cases
    case s
    with meta obtain md where md: "get_prop payload ''metadata'' = Inr (JObj md)" by auto
    show ?thesis
      using verified ty obj s success_outcome [OF md, of e w]
      by (auto simp add: webhook_def dispatch_def io_bind_def io_lift_def handler_error_line_def
          split: prod.splits sum.splits)
  next
    case f
    with meta obtain md where md: "get_prop payload ''metadata'' = Inr (JObj md)" by auto
    show ?thesis
      using verified ty obj f failure_outcome [OF md, of e w]
      by (auto simp add: webhook_def dispatch_def io_bind_def io_lift_def handler_error_line_def
          split: prod.splits sum.splits)
  next
    case r
    show ?thesis
      using verified ty obj r refund_outcome [of e payload w]
      by (auto simp add: webhook_def dispatch_def io_bind_def io_lift_def handler_error_line_def
          split: prod.splits sum.splits)
  qed
qed

theorem handler_failure_is_swallowed_witness:
  "dues_upsert_fails ex_env_dues_fails ''payment_intent.succeeded'' (ex_intent ''dues'')
   \<and> fst (webhook ex_env_dues_fails (succeeded_delivery (ex_intent ''dues'')) w0) = received
   \<and> store (snd (webhook ex_env_dues_fails (succeeded_delivery (ex_intent ''dues'')) w0)) = store w0
   \<and> console (snd (webhook ex_env_dues_fails (succeeded_delivery (ex_intent ''dues'')) w0))
       = [''Error updating payment success:'']"
proof -
  have h: "dues_upsert_fails ex_env_dues_fails ''payment_intent.succeeded'' (ex_intent ''dues'')"
    by (simp add: attempt_defs ex_env_dues_fails_def ex_defs path_defs literal_defs and_then_def
        destructure_def)
  then have t: "try_block_fails ex_env_dues_fails ''payment_intent.succeeded'' (ex_intent ''dues'')"
    by (simp add: try_block_fails_def)
  have "fst (webhook ex_env_dues_fails (succeeded_delivery (ex_intent ''dues'')) w0) = received
    \<and> (try_block_fails ex_env_dues_fails ''payment_intent.succeeded'' (ex_intent ''dues'') \<longrightarrow>
         console (snd (webhook ex_env_dues_fails (succeeded_delivery (ex_intent ''dues'')) w0))
           = console w0 @ [handler_error_line ''payment_intent.succeeded''])
    \<and> (\<not> try_block_fails ex_env_dues_fails ''payment_intent.succeeded'' (ex_intent ''dues'') \<longrightarrow>
         (\<exists>l. console (snd (webhook ex_env_dues_fails (succeeded_delivery (ex_intent ''dues'')) w0))
                 = console w0 @ [l] \<and> l \<noteq> handler_error_line ''payment_intent.succeeded''))
    \<and> (dues_upsert_fails ex_env_dues_fails ''payment_intent.succeeded'' (ex_intent ''dues'') \<longrightarrow>
         store (snd (webhook ex_env_dues_fails (succeeded_delivery (ex_intent ''dues'')) w0)) = store w0
       \<and> next_id (snd (webhook ex_env_dues_fails (succeeded_delivery (ex_intent ''dues'')) w0))
           = next_id w0)"
    by (rule handler_failure_is_swallowed
          [of ex_env_dues_fails "succeeded_delivery (ex_intent ''dues'')"
            "ex_event ''payment_intent.succeeded'' (ex_intent ''dues'')"
            "''payment_intent.succeeded''" "ex_intent ''dues''" w0])
       (simp_all add: ex_defs ex_env_dues_fails_def and_then_def)
  with h t show ?thesis
    by (simp add: handler_error_line_def w0_def)
qed

text \<open>
  The claim C5 as stated fails where it says that the Record Store is unchanged by a
  failed handler: when the donation append fails after the Dues upsert, the failure is
  caught and logged and the endpoint acknowledges, but the Dues record has been written.
\<close>

theorem failed_donation_append_keeps_dues_write:
  "fst (webhook ex_env_add_fails (succeeded_delivery (ex_intent ''donation'')) w0) = received
   \<and> console (snd (webhook ex_env_add_fails (succeeded_delivery (ex_intent ''donation'')) w0))
       = [''Error updating payment success:'']
   \<and> status_of w0 ex_dues = None
   \<and> status_of (snd (webhook ex_env_add_fails (succeeded_delivery (ex_intent ''donation'')) w0))
       ex_dues = Some (JStr ''Paid'')"
  by (simp add: ex_env_add_fails_def ex_defs handler_defs io_defs literal_defs path_defs
      status_of_def lookup_doc_def received_def)

text \<open>
  C6, as the code has it. A verified charge-refunded event makes the handler fetch the
  owning payment intent from the provider; when the fetched intent's metadata names the
  member and the organization by document ids and carries a member name, the charge has
  a first refund entry with an id, and the store accepts the write, the member's Dues
  document is merged with amount = refunded amount / 100, status Refunded, refundDate =
  the processing date and the id of the first refund entry, its other fields kept.
\<close>

theorem refunded_event_upserts_refunded_dues:
  assumes verified: "constructEvent e (body req) (header req ''stripe-signature'') = Inr event"
    and ty: "get_prop event ''type'' = Inr (JStr ''charge.refunded'')"
    and obj: "event_object event = Inr charge"
    and intent: "get_prop charge ''payment_intent'' = Inr intentId"
    and retrieve: "paymentIntents_retrieve e intentId = Inr paymentIntent"
    and meta: "get_prop paymentIntent ''metadata'' = Inr (JObj md)"
    and member: "map_of md ''memberId'' = Some m"
    and org: "map_of md ''organizationId'' = Some org"
    and name: "map_of md ''memberName'' = Some name" "storable name"
    and ref: "dues_ref e org m = Inr r"
    and amount: "get_prop charge ''amount_refunded'' = Inr (JNum a)"
    and refunds: "get_prop charge ''refunds'' = Inr refunds"
    and entries: "get_prop refunds ''data'' = Inr (JArr (entry # others))"
    and rid: "get_prop entry ''id'' = Inr refundId" "storable refundId"
    and accepts: "\<forall>fs. \<not> store_fault e (OpSet r fs)"
  shows "fst (webhook e req w) = received
    \<and> provider_calls (snd (webhook e req w)) = provider_calls w @ [PaymentIntentsRetrieve intentId]
    \<and> (\<exists>d. lookup_doc (snd (webhook e req w)) r = Some d
       \<and> d ''amount'' = Some (JNum (a / 100))
       \<and> d ''status'' = Some (JStr ''Refunded'')
       \<and> d ''refundDate'' = Some (JStr (today e))
       \<and> d ''refundId'' = Some refundId
       \<and> (\<forall>k. k \<notin> set [''memberName'', ''amount'', ''status'', ''refundDate'', ''refundId''] \<longrightarrow>
              d k = (case lookup_doc w r of None \<Rightarrow> None | Some old \<Rightarrow> old k)))"
  using assms
  by (simp add: handler_defs io_defs literal_defs lookup_doc_def
      map_of_upsert map_add_def split: option.splits)

theorem refunded_event_upserts_refunded_dues_witness:
  "fst (webhook ex_env (refunded_delivery ''pi_1'') w0) = received
   \<and> provider_calls (snd (webhook ex_env (refunded_delivery ''pi_1'') w0))
      = [PaymentIntentsRetrieve (JStr ''pi_1'')]
   \<and> (\<exists>d. lookup_doc (snd (webhook ex_env (refunded_delivery ''pi_1'') w0)) ex_dues = Some d
      \<and> d ''amount'' = Some (JNum 150)
      \<and> d ''status'' = Some (JStr ''Refunded'')
      \<and> d ''refundDate'' = Some (JStr ''2024-05-01'')
      \<and> d ''refundId'' = Some (JStr ''re_1''))"
  using refunded_event_upserts_refunded_dues
    [of ex_env "refunded_delivery ''pi_1''"
      "ex_event ''charge.refunded'' (ex_charge ''pi_1'')" "ex_charge ''pi_1''" "JStr ''pi_1''"
      "ex_intent ''dues''" "ex_metadata ''dues''"
      "JStr ''m1''" "JStr ''o1''" "JStr ''Test''" ex_dues 15000
      "JObj [(''data'', JArr [JObj [(''id'', JStr ''re_1'')]])]"
      "JObj [(''id'', JStr ''re_1'')]" "[]" "JStr ''re_1''" w0]
  by (auto simp add: ex_defs path_defs and_then_def)

text \<open>
  The claim C6 as stated fails for a charge whose intent resolves to a member: when the
  metadata of the fetched intent has no memberName, the data passed to \<^verbatim>\<open>set\<close>
  has an undefined value, the store client refuses it, and the handler logs the error
  and writes no Dues record.
\<close>

theorem unnamed_member_refund_is_not_recorded:
  "fst (webhook ex_env (refunded_delivery ''pi_3'') w0) = received
   \<and> provider_calls (snd (webhook ex_env (refunded_delivery ''pi_3'') w0))
      = [PaymentIntentsRetrieve (JStr ''pi_3'')]
   \<and> store (snd (webhook ex_env (refunded_delivery ''pi_3'') w0)) = store w0
   \<and> lookup_doc (snd (webhook ex_env (refunded_delivery ''pi_3'') w0)) ex_dues = None
   \<and> console (snd (webhook ex_env (refunded_delivery ''pi_3'') w0)) = [''Error updating refund:'']"
  by (simp add: ex_defs handler_defs io_defs literal_defs path_defs lookup_doc_def received_def)

text \<open>
  C10. A verified payment_intent.succeeded or payment_intent.payment_failed event whose
  payload object has no metadata property makes the handler throw while it destructures
  the metadata, before its own try block: the route's handler logs the error and answers
  500, and nothing is written.
\<close>

theorem missing_metadata_answers_500:
  assumes verified: "constructEvent e (body req) (header req ''stripe-signature'') = Inr event"
    and ty: "get_prop event ''type'' = Inr (JStr ''payment_intent.succeeded'')
           \<or> get_prop event ''type'' = Inr (JStr ''payment_intent.payment_failed'')"
    and obj: "event_object event = Inr paymentIntent"
    and meta: "get_prop paymentIntent ''metadata'' = Inr JUndefined"
  shows "fst (webhook e req w) = (500, Json (JObj [(''error'', JStr ''Webhook processing failed'')]))
     \<and> fst (webhook e req w) \<noteq> received
     \<and> store (snd (webhook e req w)) = store w
     \<and> next_id (snd (webhook e req w)) = next_id w
     \<and> provider_calls (snd (webhook e req w)) = provider_calls w
     \<and> console (snd (webhook e req w)) = console w @ [''Error processing webhook:'']"
  using assms
  by (auto simp add: handler_defs io_defs received_def)

theorem missing_metadata_answers_500_witness:
  "fst (webhook ex_env
          (ex_delivery ''t=1,v1=good'' (ex_event ''payment_intent.payment_failed'' ex_bare_intent))
          w0)
     = (500, Json (JObj [(''error'', JStr ''Webhook processing failed'')]))
   \<and> store (snd (webhook ex_env
          (ex_delivery ''t=1,v1=good'' (ex_event ''payment_intent.payment_failed'' ex_bare_intent))
          w0)) = (\<lambda>c. [])
   \<and> console (snd (webhook ex_env
          (ex_delivery ''t=1,v1=good'' (ex_event ''payment_intent.payment_failed'' ex_bare_intent))
          w0)) = [''Error processing webhook:'']"
  using missing_metadata_answers_500
    [of ex_env
      "ex_delivery ''t=1,v1=good'' (ex_event ''payment_intent.payment_failed'' ex_bare_intent)"
      "ex_event ''payment_intent.payment_failed'' ex_bare_intent" ex_bare_intent w0]
  by (simp add: ex_defs and_then_def)

section \<open>Properties of Intent Issuance, Reimbursement Issuance and History Query\<close>

text \<open>
  C7, as the code has it. Every payment-intent creation that the intent-issuance route or
  the expense-submission route asks of the provider passes a metadata object with the
  keys memberId, organizationId, paymentType and memberName: memberId and organizationId
  are those of the request, paymentType is dues, respectively expense, and memberName is
  the name field of the member document as the request found it (the demo member's name
  without a store client; the submitter's name when expense submission finds no member
  document). The four values are carried by the provider-side object when the two ids
  and that name are non-empty strings.
\<close>

theorem created_intents_carry_join_metadata:
  "(\<forall>args. PaymentIntentsCreate args \<in> set (new_calls w (snd (create_payment_intent e req w))) \<longrightarrow>
      joins_back req ''dues'' (issuance_member_name e w req) args
      \<and> (carried (body_field req ''memberId'') \<and> carried (body_field req ''organizationId'')
           \<and> carried (issuance_member_name e w req) \<longrightarrow> join_values_present args))
   \<and> (\<forall>args. PaymentIntentsCreate args \<in> set (new_calls w (snd (submit_expense e req w))) \<longrightarrow>
      joins_back req ''expense'' (expense_member_name e w req) args
      \<and> (carried (body_field req ''memberId'') \<and> carried (body_field req ''organizationId'')
           \<and> carried (expense_member_name e w req) \<longrightarrow> join_values_present args))"
proof -
  have 1: "intents_join_back e req ''dues'' (issuance_member_name e w req) w
             (snd (create_payment_intent e req w))"
    using create_payment_intent_calls [where wi = w and req = req and e = e]
      join_start [of e req "''dues''" "issuance_member_name e w req" w]
    by (simp add: keeps_def create_payment_intent_def snd_respond)
  have 2: "intents_join_back e req ''expense'' (expense_member_name e w req) w
             (snd (submit_expense e req w))"
    using submit_expense_calls [where wi = w and req = req and e = e]
      join_start [of e req "''expense''" "expense_member_name e w req" w]
    by (simp add: keeps_def submit_expense_def snd_respond)
  show ?thesis
    using new_calls_join_back [OF 1] new_calls_join_back [OF 2]
    by (blast intro: joins_back_present)
qed

theorem created_intents_carry_join_metadata_witness:
  "PaymentIntentsCreate
     (JObj [(''amount'', JNum 15000), (''currency'', JStr ''usd''), (''customer'', JStr ''cus_1''),
            (''description'', JStr ''Spring dues''),
            (''metadata'', JObj [(''memberId'', JStr ''m1''), (''organizationId'', JStr ''o1''),
                                 (''paymentType'', JStr ''dues''), (''memberName'', JStr ''Test'')]),
            (''automatic_payment_methods'', JObj [(''enabled'', JBool True)])])
     \<in> set (new_calls (ex_member_world [(''name'', JStr ''Test''), (''email'', JStr ''t@example.com'')])
           (snd (create_payment_intent ex_env ex_intent_request
              (ex_member_world [(''name'', JStr ''Test''), (''email'', JStr ''t@example.com'')]))))
   \<and> join_values_present
     (JObj [(''amount'', JNum 15000), (''currency'', JStr ''usd''), (''customer'', JStr ''cus_1''),
            (''description'', JStr ''Spring dues''),
            (''metadata'', JObj [(''memberId'', JStr ''m1''), (''organizationId'', JStr ''o1''),
                                 (''paymentType'', JStr ''dues''), (''memberName'', JStr ''Test'')]),
            (''automatic_payment_methods'', JObj [(''enabled'', JBool True)])])
   \<and> PaymentIntentsCreate
     (JObj [(''amount'', JNum 1200), (''currency'', JStr ''usd''), (''customer'', JStr ''cus_1''),
            (''description'', JStr ''Expense: Pizza''),
            (''metadata'', JObj [(''memberId'', JStr ''m1''), (''organizationId'', JStr ''o1''),
                                 (''paymentType'', JStr ''expense''), (''memberName'', JStr ''Test''),
                                 (''category'', JStr ''Food''), (''expenseId'', JStr ''1714557600000'')]),
            (''automatic_payment_methods'', JObj [(''enabled'', JBool True)])])
     \<in> set (new_calls (ex_member_world [(''name'', JStr ''Test''), (''email'', JStr ''t@example.com'')])
           (snd (submit_expense ex_env ex_expense_request
              (ex_member_world [(''name'', JStr ''Test''), (''email'', JStr ''t@example.com'')]))))
   \<and> join_values_present
     (JObj [(''amount'', JNum 1200), (''currency'', JStr ''usd''), (''customer'', JStr ''cus_1''),
            (''description'', JStr ''Expense: Pizza''),
            (''metadata'', JObj [(''memberId'', JStr ''m1''), (''organizationId'', JStr ''o1''),
                                 (''paymentType'', JStr ''expense''), (''memberName'', JStr ''Test''),
                                 (''category'', JStr ''Food''), (''expenseId'', JStr ''1714557600000'')]),
            (''automatic_payment_methods'', JObj [(''enabled'', JBool True)])])"
proof -
  let ?w = "ex_member_world [(''name'', JStr ''Test''), (''email'', JStr ''t@example.com'')]"
  let ?a = "JObj [(''amount'', JNum 15000), (''currency'', JStr ''usd''), (''customer'', JStr ''cus_1''),
            (''description'', JStr ''Spring dues''),
            (''metadata'', JObj [(''memberId'', JStr ''m1''), (''organizationId'', JStr ''o1''),
                                 (''paymentType'', JStr ''dues''), (''memberName'', JStr ''Test'')]),
            (''automatic_payment_methods'', JObj [(''enabled'', JBool True)])]"
  let ?b = "JObj [(''amount'', JNum 1200), (''currency'', JStr ''usd''), (''customer'', JStr ''cus_1''),
            (''description'', JStr ''Expense: Pizza''),
            (''metadata'', JObj [(''memberId'', JStr ''m1''), (''organizationId'', JStr ''o1''),
                                 (''paymentType'', JStr ''expense''), (''memberName'', JStr ''Test''),
                                 (''category'', JStr ''Food''), (''expenseId'', JStr ''1714557600000'')]),
            (''automatic_payment_methods'', JObj [(''enabled'', JBool True)])]"
  have 1: "PaymentIntentsCreate ?a
      \<in> set (new_calls ?w (snd (create_payment_intent ex_env ex_intent_request ?w)))"
    by (simp add: create_payment_intent_def new_calls_def request_defs ex_defs io_defs route_defs
        path_defs)
  have 2: "PaymentIntentsCreate ?b
      \<in> set (new_calls ?w (snd (submit_expense ex_env ex_expense_request ?w)))"
    by (simp add: submit_expense_def new_calls_def request_defs ex_defs io_defs route_defs
        path_defs)
  have 3: "carried (body_field ex_intent_request ''memberId'')"
    "carried (body_field ex_intent_request ''organizationId'')"
    "carried (body_field ex_expense_request ''memberId'')"
    "carried (body_field ex_expense_request ''organizationId'')"
    by (simp_all add: body_field_def request_defs)
  have 4: "carried (issuance_member_name ex_env ?w ex_intent_request)"
    "carried (expense_member_name ex_env ?w ex_expense_request)"
    by (simp_all add: issuance_member_name_def expense_member_name_def request_member_def
        lookup_member_def lookup_doc_def body_field_def doc_field_def request_defs ex_defs
        path_defs and_then_def)
  from 1 2 3 4 created_intents_carry_join_metadata [of ?w ex_env ex_intent_request] created_intents_carry_join_metadata [of ?w ex_env ex_expense_request]
  show ?thesis by blast
qed

text \<open>
  The claim C7 as stated fails: for a member document without a name field the
  expense-submission route creates a payment intent and answers with its client secret,
  but the memberName passed in the metadata is undefined, so the provider-side object
  has no memberName.
\<close>

theorem nameless_member_intent_lacks_member_name:
  "fst (submit_expense ex_env ex_expense_request
          (ex_member_world [(''email'', JStr ''t@example.com'')]))
     = (200, Json (JObj [(''success'', JBool True),
                         (''expenseId'', JStr ''1714557600000''),
                         (''paymentIntentId'', JStr ''pi_1''),
                         (''clientSecret'', JStr ''pi_1_secret''),
                         (''message'', JStr
                 ''Expense submitted successfully. Payment required to complete submission.'')]))
   \<and> new_calls (ex_member_world [(''email'', JStr ''t@example.com'')])
        (snd (submit_expense ex_env ex_expense_request
                (ex_member_world [(''email'', JStr ''t@example.com'')])))
     = [CustomersList (JObj [(''email'', JStr ''t@example.com''), (''limit'', JNum 1)]),
        CustomersCreate (JObj [(''email'', JStr ''t@example.com''), (''name'', JUndefined),
                               (''metadata'', JObj [(''memberId'', JStr ''m1''),
                                                    (''organizationId'', JStr ''o1'')])]),
        PaymentIntentsCreate
          (JObj [(''amount'', JNum 1200), (''currency'', JStr ''usd''), (''customer'', JStr ''cus_1''),
                 (''description'', JStr ''Expense: Pizza''),
                 (''metadata'', JObj [(''memberId'', JStr ''m1''), (''organizationId'', JStr ''o1''),
                                      (''paymentType'', JStr ''expense''), (''memberName'', JUndefined),
                                      (''category'', JStr ''Food''),
                                      (''expenseId'', JStr ''1714557600000'')]),
                 (''automatic_payment_methods'', JObj [(''enabled'', JBool True)])])]
   \<and> \<not> join_values_present
          (JObj [(''amount'', JNum 1200), (''currency'', JStr ''usd''), (''customer'', JStr ''cus_1''),
                 (''description'', JStr ''Expense: Pizza''),
                 (''metadata'', JObj [(''memberId'', JStr ''m1''), (''organizationId'', JStr ''o1''),
                                      (''paymentType'', JStr ''expense''), (''memberName'', JUndefined),
                                      (''category'', JStr ''Food''),
                                      (''expenseId'', JStr ''1714557600000'')]),
                 (''automatic_payment_methods'', JObj [(''enabled'', JBool True)])])"
  by (simp add: submit_expense_def new_calls_def request_defs ex_defs io_defs route_defs
      path_defs join_values_present_def join_keys_def)

text \<open>
  C8, as the code has it. A reimbursement request whose member document does not exist
  makes no provider call and changes no record, whatever else happens. When the request
  passes validation, its ids name a member document and the store answers the lookup,
  the response is 404 and the world is left as it was; when its ids name no document,
  the store client throws and the response is 500.
\<close>

theorem unknown_member_reimbursement_is_404:
  assumes member: "get_prop (body req) ''memberId'' = Inr m"
    and org: "get_prop (body req) ''organizationId'' = Inr org"
    and absent: "lookup_member e w org m = None"
  shows "provider_calls (snd (process_reimbursement e req w)) = provider_calls w
    \<and> store (snd (process_reimbursement e req w)) = store w
    \<and> (validation_errors e ValidateExpenseReimbursement (body req) = []
         \<and> (\<exists>r. record_ref e org m ''members'' m = Inr r \<and> \<not> store_fault e (OpGet r)) \<longrightarrow>
       process_reimbursement e req w = (member_not_found, w))
    \<and> (validation_errors e ValidateExpenseReimbursement (body req) = []
         \<and> record_ref e org m ''members'' m = Inl err \<longrightarrow>
       process_reimbursement e req w
         = ((500, Json (JObj [(''error'', JStr ''Failed to process reimbursement''),
                              (''message'', JStr (message err))])),
            w\<lparr>console := console w @ [''Error processing reimbursement:'']\<rparr>))"
proof -
  obtain a d r where
    "get_prop (body req) ''amount'' = Inr a"
    "get_prop (body req) ''description'' = Inr d"
    "get_prop (body req) ''receiptUrl'' = Inr r"
    using get_prop_total [OF member] by metis
  then show ?thesis
    using assms get_prop_destructure [OF member, of "''req.body''"]
    by (auto simp add: process_reimbursement_def respond_def io_bind_def io_lift_def io_return_def
        try_catch_def console_log_def doc_get_def lookup_doc_def lookup_member_def
        split: sum.splits)
qed

theorem unknown_member_reimbursement_is_404_witness:
  "process_reimbursement ex_env ex_reimbursement_request
       (ex_member_world [(''name'', JStr ''Test''), (''email'', JStr ''test@example.com'')])
     = ((404, Json (JObj [(''error'', JStr ''Member not found'')])),
        ex_member_world [(''name'', JStr ''Test''), (''email'', JStr ''test@example.com'')])
   \<and> provider_calls (snd (process_reimbursement ex_env ex_reimbursement_request
       (ex_member_world [(''name'', JStr ''Test''), (''email'', JStr ''test@example.com'')]))) = []"
  using unknown_member_reimbursement_is_404
    [of ex_reimbursement_request "JStr ''m9''" "JStr ''o1''" ex_env
      "ex_member_world [(''name'', JStr ''Test''), (''email'', JStr ''test@example.com'')]"]
  by (auto simp add: ex_reimbursement_request_def ex_member_world_def ex_defs lookup_doc_def
      lookup_member_def path_defs and_then_def member_not_found_def)

text \<open>
  The claim C8 as stated fails where it says that the response is 404 for every member
  id that resolves to no member record: a member id with a slash in it names no
  document, the store client throws before any lookup, and the endpoint answers 500
  (still without any provider call).
\<close>

theorem slash_member_reimbursement_is_500:
  "lookup_member ex_env w0 (JStr ''o1'') (JStr ''m/9'') = None
   \<and> fst (fst (process_reimbursement ex_env ex_slash_reimbursement_request w0)) = 500
   \<and> provider_calls (snd (process_reimbursement ex_env ex_slash_reimbursement_request w0)) = []
   \<and> store (snd (process_reimbursement ex_env ex_slash_reimbursement_request w0)) = store w0
   \<and> console (snd (process_reimbursement ex_env ex_slash_reimbursement_request w0))
       = [''Error processing reimbursement:'']"
  by (simp add: process_reimbursement_def ex_slash_reimbursement_request_def ex_defs
      lookup_member_def respond_def io_defs destructure_def path_defs store_error_def)

text \<open>
  C9, as the code has it. For a history query whose ids name a member, with the store
  answering the query: the response is 200 with the member's payment-intent documents
  that have a creation time, each with its id, ordered by creation time, newest first;
  with no documents the answer is 200 with the empty list. The query changes nothing.
\<close>

theorem history_is_newest_first:
  assumes org: "map_of (params req) ''organizationId'' = Some org"
    and member: "map_of (params req) ''memberId'' = Some m"
    and coll: "member_collection e org m ''payment_intents'' = Inr c"
    and ok: "\<not> store_fault e (OpQuery c ''createdAt'')"
  shows "\<exists>ps. payment_history e req w = ((200, Payments ps), w)
    \<and> sorted_wrt (\<lambda>a b. field_key ''createdAt'' b \<le> field_key ''createdAt'' a) ps
    \<and> sorted_wrt (\<lambda>a b. \<forall>s t. created_time a = Some s \<and> created_time b = Some t \<longrightarrow> t \<le> s) ps
    \<and> set ps = with_id ` {x \<in> set (store w c). snd x ''createdAt'' \<noteq> None}
    \<and> length ps = length (filter (\<lambda>x. snd x ''createdAt'' \<noteq> None) (store w c))
    \<and> (store w c = [] \<longrightarrow> ps = [])"
proof -
  let ?ds = "order_by_desc ''createdAt'' (store w c)"
  let ?ps = "map with_id ?ds"
  have resp: "payment_history e req w = ((200, Payments ?ps), w)"
    using assms
    by (simp add: payment_history_def respond_def io_bind_def io_lift_def io_return_def
        try_catch_def destructure_def query_order_by_desc_def)
  have s1: "sorted_wrt (\<lambda>a b. field_key ''createdAt'' b \<le> field_key ''createdAt'' a) ?ps"
    using order_by_desc_sorted [of "''createdAt''" "store w c"]
    by (simp add: sorted_wrt_map)
  have s2: "sorted_wrt (\<lambda>a b. \<forall>s t. created_time a = Some s \<and> created_time b = Some t \<longrightarrow> t \<le> s) ?ps"
    by (rule sorted_wrt_mono_rel [OF _ s1]) (blast intro: key_time_le)
  have s3: "set ?ps = with_id ` {x \<in> set (store w c). snd x ''createdAt'' \<noteq> None}"
    by (simp add: set_order_by_desc)
  have s4: "length ?ps = length (filter (\<lambda>x. snd x ''createdAt'' \<noteq> None) (store w c))"
    by (simp add: length_order_by_desc)
  have s5: "store w c = [] \<longrightarrow> ?ps = []"
    by (simp add: order_by_desc_def)
  from resp s1 s2 s3 s4 s5 show ?thesis by blast
qed

theorem history_is_newest_first_witness:
  "fst (payment_history ex_env ex_history_request w0) = (200, Payments [])
   \<and> (\<exists>newer older. fst (payment_history ex_env ex_history_request ex_history_world)
          = (200, Payments [newer, older])
        \<and> created_time newer = Some 9 \<and> created_time older = Some 5)"
proof -
  have c: "member_collection ex_env (JStr ''o1'') (JStr ''m1'') ''payment_intents''
      = Inr (ex_collection ''payment_intents'')"
    by (simp add: path_defs and_then_def ex_defs)
  from history_is_newest_first
    [of ex_history_request "JStr ''o1''" "JStr ''m1''" ex_env "ex_collection ''payment_intents''" w0]
    c
  have 1: "fst (payment_history ex_env ex_history_request w0) = (200, Payments [])"
    by (auto simp add: ex_history_request_def ex_defs)
  have 2: "fst (payment_history ex_env ex_history_request ex_history_world)
      = (200, Payments [with_id (AutoKey 1, map_of [(''paymentIntentId'', JStr ''pi_2''),
                                                   (''createdAt'', Timestamp 9)]),
                        with_id (AutoKey 0, map_of [(''paymentIntentId'', JStr ''pi_1''),
                                                   (''createdAt'', Timestamp 5)])])"
    using c
    by (simp add: payment_history_def respond_def io_defs query_order_by_desc_def order_by_desc_def
        field_key_def doc_field_def ex_history_request_def ex_history_world_def ex_defs
        destructure_def less_eq_prod_def)
  have 3: "created_time (with_id (AutoKey 1, map_of [(''paymentIntentId'', JStr ''pi_2''),
                                                   (''createdAt'', Timestamp 9)])) = Some 9"
    "created_time (with_id (AutoKey 0, map_of [(''paymentIntentId'', JStr ''pi_1''),
                                                   (''createdAt'', Timestamp 5)])) = Some 5"
    by (simp_all add: created_time_def with_id_def map_add_def)
  from 1 2 3 show ?thesis by blast
qed

text \<open>
  The claim C9 as stated fails where it says that every history query is answered 200:
  for a member id with a slash in it, which names no document and so has no
  payment-intent records, the store client throws and the endpoint answers 500.
\<close>

theorem slash_member_history_is_500:
  "store w0 = (\<lambda>c. [])
   \<and> fst (fst (payment_history ex_env ex_slash_history_request w0)) = 500
   \<and> console (snd (payment_history ex_env ex_slash_history_request w0))
       = [''Error fetching payment history:'']"
  by (simp add: payment_history_def ex_slash_history_request_def ex_defs
      respond_def io_defs destructure_def path_defs store_error_def)

end
